theory Spec2Isabelle
  imports Main
begin

section \<open>Data model (helpdesk/models.py)\<close>

text \<open>
  Instants (\<open>datetime\<close> values) are integers; a nullable column is an \<open>option\<close>.
  A related object (a foreign key read through the ORM) is the object itself, as the
  Python code sees it: \<open>ticket.assigned_to\<close> is a user or \<open>None\<close>. Objects of models that
  live outside this repository (the user model, \<open>sphinx.Customer\<close>, \<open>sphinx.Site\<close>,
  \<open>sphinx.CustomerProducts\<close>) carry their primary key and the text \<open>str()\<close> gives.
\<close>

type_synonym timestamp = int

record user =
  uid :: int
  username :: string
  user_email :: string
  user_str :: string
  is_staff :: bool
  is_active :: bool
  email_on_ticket_assign :: "bool option"
  email_on_ticket_change :: "bool option"

record customer =
  cid :: int
  customer_str :: string

record site =
  sid :: int
  site_str :: string

record customer_product =
  pid :: int
  product_str :: string

record queue =
  from_address :: string
  updated_ticket_cc :: "string option"

definition OPEN_STATUS :: int where "OPEN_STATUS = 1"
definition REOPENED_STATUS :: int where "REOPENED_STATUS = 2"
definition RESOLVED_STATUS :: int where "RESOLVED_STATUS = 3"
definition CLOSED_STATUS :: int where "CLOSED_STATUS = 4"
definition DUPLICATE_STATUS :: int where "DUPLICATE_STATUS = 5"

lemmas status_defs =
  OPEN_STATUS_def REOPENED_STATUS_def RESOLVED_STATUS_def CLOSED_STATUS_def DUPLICATE_STATUS_def

record ticket =
  tid :: "int option"
  title :: string
  queue :: queue
  created :: "timestamp option"
  modified :: "timestamp option"
  resolved :: "timestamp option"
  closed :: "timestamp option"
  submitter_email :: "string option"
  assigned_to :: "user option"
  status :: int
  category :: "int option"
  ticket_type :: "int option"
  billing :: "int option"
  resolution :: "string option"
  priority :: int
  due_date :: "timestamp option"
  customer_contact :: "user option"
  customer :: "customer option"
  site :: "site option"
  customer_product :: "customer_product option"
  time_before_first_answer :: "int option"
  merged_to :: "int option"
  generic_incident :: "int option"

record followup =
  f_id :: "int option"
  f_ticket :: "int option"
  f_date :: timestamp
  f_title :: "string option"
  f_comment :: string
  f_public :: bool
  f_user :: "user option"
  f_new_status :: "int option"

record ticket_change =
  tc_followup :: "int option"
  tc_field :: string
  old_value :: string
  new_value :: string

record ticket_cc =
  cc_ticket :: "int option"
  cc_user :: "user option"
  cc_email :: "string option"
  can_view :: bool
  can_update :: bool

record mail =
  template :: string
  recipients :: "string option"

text \<open>
  The database: one list of rows per table (primary keys are unique in a database; the
  lists are read with \<open>find\<close>). A ticket type is its key and its flag
  \<open>mandatory_facturation\<close>; of a category and of a generic incident only the key is kept. \<open>SimpleUserMail.email\<close> is declared \<open>unique=True\<close>, so that
  table is a map from the e-mail address to the row's customer. \<open>outbox\<close> collects the
  calls of \<open>send_templated_mail\<close>, in order.
\<close>

record db =
  tickets :: "ticket list"
  next_ticket_id :: int
  users :: "user list"
  customers :: "customer list"
  sites :: "site list"
  customer_products :: "customer_product list"
  queues :: "(int \<times> queue) list"
  categories :: "int list"
  ticket_types :: "(int \<times> bool) list"
  incidents :: "int list"
  simple_user_mails :: "string \<rightharpoonup> customer option"
  followups :: "followup list"
  next_followup_id :: int
  ticket_changes :: "ticket_change list"
  ticket_ccs :: "ticket_cc list"
  outbox :: "mail list"

datatype exc = ValueError | DoesNotExist | TemplateSyntaxError | DatabaseError

subsection \<open>Truth values of Python objects\<close>

definition truthy :: "string option \<Rightarrow> bool" where
  "truthy s = (case s of None \<Rightarrow> False | Some v \<Rightarrow> v \<noteq> [])"

definition the_default :: "'a \<Rightarrow> 'a option \<Rightarrow> 'a" where
  "the_default dflt x = (case x of None \<Rightarrow> dflt | Some v \<Rightarrow> v)"

subsection \<open>Ticket.save (models.py, lines 814--868)\<close>

text \<open>Lines 815--822: a ticket with no id yet is stamped and its submitter registered.\<close>

definition register_submitter :: "timestamp \<Rightarrow> ticket \<Rightarrow> db \<Rightarrow> ticket \<times> db" where
  "register_submitter nw t d =
     (if tid t = None then
        (t\<lparr>created := Some nw\<rparr>,
         (case submitter_email t of
            None \<Rightarrow> d
          | Some e \<Rightarrow>
              if e \<noteq> [] \<and> simple_user_mails d e = None
                 \<and> \<not> (\<exists>u \<in> set (users d). user_email u = e)
              then d\<lparr>simple_user_mails := (simple_user_mails d)(e \<mapsto> None)\<rparr>
              else d))
      else (t, d))"

text \<open>Lines 824--844: the default priority, the modification date and the status dates.\<close>

definition stamp_dates :: "timestamp \<Rightarrow> ticket \<Rightarrow> ticket" where
  "stamp_dates nw t0 =
     (let t1 = (if priority t0 = 0 then t0\<lparr>priority := 3\<rparr> else t0);
          t = t1\<lparr>modified := Some nw\<rparr>
      in if status t = RESOLVED_STATUS \<and> resolved t = None then
           (let r = t\<lparr>resolved := Some nw\<rparr>
            in if closed r \<noteq> None then r\<lparr>closed := None\<rparr> else r)
         else if (status t = CLOSED_STATUS \<or> status t = DUPLICATE_STATUS) \<and> closed t = None then
           t\<lparr>closed := Some nw\<rparr>
         else if (status t = OPEN_STATUS \<or> status t = REOPENED_STATUS)
                 \<and> (closed t \<noteq> None \<or> resolved t \<noteq> None) then
           t\<lparr>closed := None, resolved := None\<rparr>
         else t)"

text \<open>Lines 846--855: the customer of the submitter's address, in both directions.\<close>

definition sync_customer :: "ticket \<Rightarrow> db \<Rightarrow> ticket \<times> db" where
  "sync_customer t d0 =
     (let d = (case (customer t, submitter_email t) of
                 (Some c, Some e) \<Rightarrow>
                   if e \<noteq> [] \<and> simple_user_mails d0 e = Some None
                   then d0\<lparr>simple_user_mails := (simple_user_mails d0)(e \<mapsto> Some c)\<rparr>
                   else d0
               | _ \<Rightarrow> d0)
      in case (customer t, submitter_email t) of
           (None, Some e) \<Rightarrow>
             (case simple_user_mails d e of
                Some (Some c) \<Rightarrow> (t\<lparr>customer := Some c\<rparr>, d)
              | _ \<Rightarrow> (t, d))
         | _ \<Rightarrow> (t, d))"

text \<open>
  Line 857, \<open>super().save()\<close> with no \<open>update_fields\<close>: a ticket with no id is inserted
  under the next id of the sequence; otherwise the row of that id is rewritten whole, and
  inserted when there is none.
\<close>

definition write_row :: "ticket \<Rightarrow> db \<Rightarrow> ticket \<times> db" where
  "write_row t d =
     (case tid t of
        None \<Rightarrow>
          (let t' = t\<lparr>tid := Some (next_ticket_id d)\<rparr>
           in (t', d\<lparr>tickets := tickets d @ [t'], next_ticket_id := next_ticket_id d + 1\<rparr>))
      | Some i \<Rightarrow>
          if \<exists>r \<in> set (tickets d). tid r = Some i
          then (t, d\<lparr>tickets := map (\<lambda>r. if tid r = Some i then t else r) (tickets d)\<rparr>)
          else (t, d\<lparr>tickets := tickets d @ [t]\<rparr>))"

text \<open>Lines 859--868: \<open>self.merged_tickets.update(...)\<close>, a bulk update of the rows
  whose \<open>merged_to\<close> is this ticket; no \<open>save\<close> of theirs runs.\<close>

definition override_row :: "ticket \<Rightarrow> ticket \<Rightarrow> ticket" where
  "override_row t r =
     r\<lparr>assigned_to := assigned_to t, category := category t, ticket_type := ticket_type t,
       billing := billing t, customer := customer t, site := site t,
       customer_product := customer_product t\<rparr>"

definition propagate_merge :: "ticket \<Rightarrow> db \<Rightarrow> db" where
  "propagate_merge t d =
     d\<lparr>tickets := map (\<lambda>r. if tid t \<noteq> None \<and> merged_to r = tid t then override_row t r else r)
                       (tickets d)\<rparr>"

definition ticket_save :: "timestamp \<Rightarrow> ticket \<Rightarrow> db \<Rightarrow> ticket \<times> db" where
  "ticket_save nw t0 d0 =
     (let (t1, d1) = register_submitter nw t0 d0;
          t2 = stamp_dates nw t1;
          (t3, d3) = sync_customer t2 d1;
          (t4, d4) = write_row t3 d3
      in (t4, propagate_merge t4 d4))"


section \<open>The update workflow (views/staff.py, update\_ticket, lines 573--888)\<close>

subsection \<open>The request\<close>

text \<open>
  A value of \<open>request.POST\<close> that the view passes to \<open>int()\<close> or to \<open>strptime\<close>: the key
  is absent, or its text is empty, or does not parse (\<open>ValueError\<close>), or parses.
\<close>

datatype 'a posted = Absent | Blank | Malformed | Posted 'a

record post =
  p_comment :: string
  p_new_status :: "int posted"
  p_title :: string
  p_public :: bool
  p_owner :: "int posted"
  p_priority :: "int posted"
  p_due_date :: "timestamp posted"
  p_customer_contact :: "int posted"
  p_customer :: "int posted"
  p_site :: "int posted"
  p_customer_product :: "int posted"
  p_files :: "string list"

text \<open>\<open>request.user\<close> is a user, or \<open>None\<close> for the anonymous user.\<close>

record request =
  req_user :: "user option"
  req_post :: post

text \<open>
  What the view takes from outside this repository: the clock, the template engine
  applied to the comment (\<open>engines['django'].from_string(comment).render(context)\<close>, with the
  context of the ticket), the date filter, \<open>base.utils.office_time_between\<close>, and the two
  settings of \<open>helpdesk.settings\<close> the view reads. One request sees one instant.
\<close>

record env =
  now :: timestamp
  render :: "ticket \<Rightarrow> string \<Rightarrow> exc + string"
  format_date :: "timestamp \<Rightarrow> string"
  office_time_between :: "timestamp option \<Rightarrow> timestamp \<Rightarrow> int"
  allow_non_staff_update :: bool
  auto_subscribe :: bool

definition and_then :: "'e + 'a \<Rightarrow> ('a \<Rightarrow> 'e + 'b) \<Rightarrow> 'e + 'b" where
  "and_then m f = (case m of Inl e \<Rightarrow> Inl e | Inr v \<Rightarrow> f v)"

text \<open>\<open>int(request.POST.get(key, default))\<close>.\<close>

fun int_or_default :: "int posted \<Rightarrow> int \<Rightarrow> exc + int" where
  "int_or_default Absent dflt = Inr dflt"
| "int_or_default (Posted n) dflt = Inr n"
| "int_or_default Blank dflt = Inl ValueError"
| "int_or_default Malformed dflt = Inl ValueError"

text \<open>\<open>int(request.POST.get(key)) if request.POST.get(key) else None\<close>, and the same shape
  for the due date (lines 590, 596--599).\<close>

fun value_or_none :: "'a posted \<Rightarrow> exc + 'a option" where
  "value_or_none Absent = Inr None"
| "value_or_none Blank = Inr None"
| "value_or_none Malformed = Inl ValueError"
| "value_or_none (Posted n) = Inr (Some n)"

record params =
  in_comment :: string
  in_new_status :: int
  in_title :: string
  in_public :: bool
  in_owner :: int
  in_priority :: int
  in_due_date :: "timestamp option"
  in_customer_contact :: "int option"
  in_customer :: "int option"
  in_site :: "int option"
  in_customer_product :: "int option"

text \<open>Lines 584--599.\<close>

definition read_post :: "post \<Rightarrow> ticket \<Rightarrow> exc + params" where
  "read_post p t =
     and_then (int_or_default (p_new_status p) (status t)) (\<lambda>new_status.
     and_then (int_or_default (p_owner p) (- 1)) (\<lambda>owner.
     and_then (int_or_default (p_priority p) (priority t)) (\<lambda>prio.
     and_then (value_or_none (p_customer_contact p)) (\<lambda>contact.
     and_then (value_or_none (p_customer p)) (\<lambda>cust.
     and_then (value_or_none (p_site p)) (\<lambda>st.
     and_then (value_or_none (p_customer_product p)) (\<lambda>prod.
     and_then (value_or_none (p_due_date p)) (\<lambda>due.
       Inr \<lparr>in_comment = p_comment p, in_new_status = new_status, in_title = p_title p,
            in_public = p_public p, in_owner = owner, in_priority = prio, in_due_date = due,
            in_customer_contact = contact, in_customer = cust, in_site = st,
            in_customer_product = prod\<rparr>))))))))"

subsection \<open>The no-change test (lines 601--617)\<close>

text \<open>\<open>Model.objects.get(id=...)\<close>; two model instances are equal when their primary keys are.\<close>

definition get_user :: "db \<Rightarrow> int \<Rightarrow> exc + user" where
  "get_user d i = (case find (\<lambda>u. uid u = i) (users d) of None \<Rightarrow> Inl DoesNotExist | Some u \<Rightarrow> Inr u)"

definition same_user :: "user option \<Rightarrow> user option \<Rightarrow> bool" where
  "same_user a b = (map_option uid a = map_option uid b)"

text \<open>The last element of the list given to \<open>all\<close>; the list is built whole, so the lookup
  of the owner raises whatever the other elements are.\<close>

definition owner_unchanged :: "int \<Rightarrow> ticket \<Rightarrow> db \<Rightarrow> exc + bool" where
  "owner_unchanged owner t d =
     (if owner = - 1 then Inr True
      else if owner = 0 then Inr (assigned_to t = None)
      else and_then (get_user d owner) (\<lambda>u. Inr (same_user (Some u) (assigned_to t))))"

definition no_changes :: "params \<Rightarrow> string list \<Rightarrow> ticket \<Rightarrow> db \<Rightarrow> exc + bool" where
  "no_changes q files t d =
     and_then (owner_unchanged (in_owner q) t d) (\<lambda>same_owner.
       Inr (files = [] \<and> in_comment q = [] \<and> in_new_status q = status t \<and> in_title q = title t
            \<and> in_priority q = priority t \<and> in_due_date q = due_date t
            \<and> in_customer_contact q = map_option uid (customer_contact t)
            \<and> in_customer q = map_option cid (customer t)
            \<and> in_site q = map_option sid (site t)
            \<and> in_customer_product q = map_option pid (customer_product t)
            \<and> same_owner))"

subsection \<open>The comment (lines 619--631)\<close>

text \<open>\<open>str.replace(old, new)\<close>: every occurrence of \<open>old\<close>, found from the left and not
  overlapping, becomes \<open>new\<close>; with an empty \<open>old\<close>, \<open>new\<close> goes before every character
  and at the end.\<close>

function py_replace :: "string \<Rightarrow> string \<Rightarrow> string \<Rightarrow> string" where
  "py_replace old new s =
     (if old = [] then new @ concat (map (\<lambda>c. c # new) s)
      else if s = [] then []
      else if take (length old) s = old then new @ py_replace old new (drop (length old) s)
      else hd s # py_replace old new (tl s))"
  by pat_completeness auto
termination
  by (relation "measure (\<lambda>(old, new, s). length s)") (auto simp: neq_Nil_conv)

declare py_replace.simps [simp del]

definition neutralise_comment :: "string \<Rightarrow> string" where
  "neutralise_comment c =
     py_replace ''X-HELPDESK-COMMENT-ENDVERBATIM'' ''%}{% endverbatim %}''
       (py_replace ''X-HELPDESK-COMMENT-VERBATIM'' ''{% verbatim %}{%''
         (py_replace ''%}'' ''X-HELPDESK-COMMENT-ENDVERBATIM''
           (py_replace ''{%'' ''X-HELPDESK-COMMENT-VERBATIM'' c)))"

subsection \<open>Texts\<close>

text \<open>\<open>str(n)\<close> of an integer, in decimal.\<close>

fun digits :: "nat \<Rightarrow> string" where
  "digits n = (if n < 10 then [char_of (48 + n)] else digits (n div 10) @ [char_of (48 + n mod 10)])"

declare digits.simps [simp del]

definition str_int :: "int \<Rightarrow> string" where
  "str_int n = (if n < 0 then CHR ''-'' # digits (nat (- n)) else digits (nat n))"

text \<open>\<open>get_status_display()\<close>: the label of \<open>STATUS_CHOICES\<close>, and the value itself as text
  when it is not a choice. The translation function \<open>_\<close> is the identity (the source
  language).\<close>

definition get_status_display :: "int \<Rightarrow> string" where
  "get_status_display s =
     (if s = OPEN_STATUS then ''Open''
      else if s = REOPENED_STATUS then ''Reopened''
      else if s = RESOLVED_STATUS then ''Resolved''
      else if s = CLOSED_STATUS then ''Closed''
      else if s = DUPLICATE_STATUS then ''Duplicate''
      else str_int s)"

definition non_definie :: string where
  "non_definie = ''Non d'' @ [char_of (195::nat), char_of (169::nat)] @ ''finie''"

subsection \<open>The owner (lines 633--657)\<close>

text \<open>Lines 633--634: the omitted owner (\<open>-1\<close>) of an assigned ticket becomes its assignee's id.\<close>

definition effective_owner :: "int \<Rightarrow> ticket \<Rightarrow> int" where
  "effective_owner owner t =
     (case assigned_to t of
        Some u \<Rightarrow> if owner = - 1 then uid u else owner
      | None \<Rightarrow> owner)"

text \<open>Lines 643--657: the ticket, the title of the follow-up and \<open>reassigned\<close>.\<close>

definition assign_owner :: "int \<Rightarrow> ticket \<Rightarrow> db \<Rightarrow> exc + (ticket \<times> string option \<times> bool)" where
  "assign_owner owner t d =
     (if owner \<noteq> - 1 then
        if owner \<noteq> 0 \<and> (case assigned_to t of Some u \<Rightarrow> owner \<noteq> uid u | None \<Rightarrow> True) then
          and_then (get_user d owner) (\<lambda>new_user.
            Inr (t\<lparr>assigned_to := Some new_user\<rparr>,
                 Some (''Assigned to '' @ username new_user), True))
        else if owner = 0 \<and> assigned_to t \<noteq> None then
          Inr (t\<lparr>assigned_to := None\<rparr>, Some ''Unassigned'', False)
        else Inr (t, None, False)
      else Inr (t, None, False))"

subsection \<open>The status and the follow-up (lines 659--677)\<close>

text \<open>Lines 661--669: a new status is saved at once; the title of the follow-up gets its label.\<close>

definition change_status :: "timestamp \<Rightarrow> int \<Rightarrow> followup \<Rightarrow> ticket \<Rightarrow> db \<Rightarrow> followup \<times> ticket \<times> db" where
  "change_status nw new_status f t d =
     (if new_status \<noteq> status t then
        (let (t', d') = ticket_save nw (t\<lparr>status := new_status\<rparr>) d;
             label = get_status_display (status t')
         in (f\<lparr>f_new_status := Some new_status,
               f_title := Some (if truthy (f_title f) then the_default [] (f_title f) @ '' and '' @ label
                                else label)\<rparr>,
             t', d'))
      else (f, t, d))"

text \<open>Lines 671--675.\<close>

definition default_title :: "followup \<Rightarrow> followup" where
  "default_title f =
     (if truthy (f_title f) then f
      else if f_comment f \<noteq> [] then f\<lparr>f_title := Some ''Comment''\<rparr>
      else f\<lparr>f_title := Some ''Updated''\<rparr>)"

text \<open>FollowUp.save (models.py, lines 1063--1073): the ticket is touched and saved, then the
  follow-up is inserted.\<close>

definition followup_save :: "env \<Rightarrow> followup \<Rightarrow> ticket \<Rightarrow> db \<Rightarrow> followup \<times> ticket \<times> db" where
  "followup_save ev f t0 d0 =
     (let t1 = t0\<lparr>modified := Some (now ev)\<rparr>;
          t2 = (if (time_before_first_answer t1 = None \<or> time_before_first_answer t1 = Some 0)
                   \<and> f_public f \<and> (case f_user f of Some u \<Rightarrow> is_staff u | None \<Rightarrow> False)
                then t1\<lparr>time_before_first_answer :=
                          Some (office_time_between ev (created t1) (f_date f))\<rparr>
                else t1);
          (t3, d3) = ticket_save (now ev) t2 d0;
          g = f\<lparr>f_ticket := tid t3\<rparr>
      in case f_id g of
           None \<Rightarrow>
             (let f' = g\<lparr>f_id := Some (next_followup_id d3)\<rparr>
              in (f', t3, d3\<lparr>followups := followups d3 @ [f'],
                                next_followup_id := next_followup_id d3 + 1\<rparr>))
         | Some i \<Rightarrow>
             (g, t3, d3\<lparr>followups := map (\<lambda>h. if f_id h = Some i then g else h) (followups d3)\<rparr>))"

subsection \<open>The change log (lines 681--775)\<close>

definition change_row :: "followup \<Rightarrow> string \<Rightarrow> string \<Rightarrow> string \<Rightarrow> ticket_change" where
  "change_row f fld old new = \<lparr>tc_followup = f_id f, tc_field = fld, old_value = old, new_value = new\<rparr>"

definition unassigned :: string where
  "unassigned = ''Unassigned''"

text \<open>Each step gives the rows it creates and the ticket as it leaves it.\<close>

definition log_title :: "followup \<Rightarrow> string \<Rightarrow> ticket \<Rightarrow> ticket_change list \<times> ticket" where
  "log_title f ttl t =
     (if ttl \<noteq> [] \<and> ttl \<noteq> title t
      then ([change_row f ''Title'' (title t) ttl], t\<lparr>title := ttl\<rparr>)
      else ([], t))"

definition log_status :: "followup \<Rightarrow> int \<Rightarrow> int \<Rightarrow> string \<Rightarrow> ticket \<Rightarrow> ticket_change list \<times> ticket" where
  "log_status f new_status old_status old_status_str t =
     (if new_status \<noteq> old_status
      then ([change_row f ''Status'' old_status_str (get_status_display (status t))], t)
      else ([], t))"

definition log_owner :: "followup \<Rightarrow> user option \<Rightarrow> ticket \<Rightarrow> ticket_change list \<times> ticket" where
  "log_owner f old_owner t =
     (if \<not> same_user (assigned_to t) old_owner
      then ([change_row f ''Owner''
               (case old_owner of Some u \<Rightarrow> user_str u | None \<Rightarrow> unassigned)
               (case assigned_to t of Some u \<Rightarrow> user_str u | None \<Rightarrow> unassigned)], t)
      else ([], t))"

definition log_priority :: "followup \<Rightarrow> int \<Rightarrow> ticket \<Rightarrow> ticket_change list \<times> ticket" where
  "log_priority f prio t =
     (if prio \<noteq> priority t
      then ([change_row f ''Priority'' (str_int (priority t)) (str_int prio)], t\<lparr>priority := prio\<rparr>)
      else ([], t))"

definition log_due_date :: "env \<Rightarrow> followup \<Rightarrow> timestamp option \<Rightarrow> ticket \<Rightarrow> ticket_change list \<times> ticket" where
  "log_due_date ev f due t =
     (if due \<noteq> due_date t
      then ([change_row f ''Due on''
               (case due_date t of Some x \<Rightarrow> format_date ev x | None \<Rightarrow> non_definie)
               (case due of Some x \<Rightarrow> format_date ev x | None \<Rightarrow> non_definie)],
            t\<lparr>due_date := due\<rparr>)
      else ([], t))"

text \<open>\<open>Model.objects.get(id=i)\<close> under \<open>except DoesNotExist\<close>; no row has the id \<open>None\<close>.\<close>

definition lookup :: "('a \<Rightarrow> int) \<Rightarrow> 'a list \<Rightarrow> int option \<Rightarrow> 'a option" where
  "lookup key rows i = (case i of None \<Rightarrow> None | Some k \<Rightarrow> find (\<lambda>r. key r = k) rows)"

definition shown :: "('a \<Rightarrow> string) \<Rightarrow> 'a option \<Rightarrow> string" where
  "shown str x = (case x of Some v \<Rightarrow> str v | None \<Rightarrow> unassigned)"

definition log_customer_contact :: "followup \<Rightarrow> int option \<Rightarrow> db \<Rightarrow> ticket \<Rightarrow> ticket_change list \<times> ticket" where
  "log_customer_contact f i d t =
     (if i \<noteq> map_option uid (customer_contact t)
      then (let x = lookup uid (users d) i
            in ([change_row f ''Contact client'' (shown user_str (customer_contact t)) (shown user_str x)],
                t\<lparr>customer_contact := x\<rparr>))
      else ([], t))"

definition log_customer :: "followup \<Rightarrow> int option \<Rightarrow> db \<Rightarrow> ticket \<Rightarrow> ticket_change list \<times> ticket" where
  "log_customer f i d t =
     (if i \<noteq> map_option cid (customer t)
      then (let x = lookup cid (customers d) i
            in ([change_row f ''Client'' (shown customer_str (customer t)) (shown customer_str x)],
                t\<lparr>customer := x\<rparr>))
      else ([], t))"

definition log_site :: "followup \<Rightarrow> int option \<Rightarrow> db \<Rightarrow> ticket \<Rightarrow> ticket_change list \<times> ticket" where
  "log_site f i d t =
     (if i \<noteq> map_option sid (site t)
      then (let x = lookup sid (sites d) i
            in ([change_row f ''Site'' (shown site_str (site t)) (shown site_str x)],
                t\<lparr>site := x\<rparr>))
      else ([], t))"

definition log_customer_product :: "followup \<Rightarrow> int option \<Rightarrow> db \<Rightarrow> ticket \<Rightarrow> ticket_change list \<times> ticket" where
  "log_customer_product f i d t =
     (if i \<noteq> map_option pid (customer_product t)
      then (let x = lookup pid (customer_products d) i
            in ([change_row f ''Produit client'' (shown product_str (customer_product t)) (shown product_str x)],
                t\<lparr>customer_product := x\<rparr>))
      else ([], t))"

text \<open>The steps in the order of the source; the rows are created in that order.\<close>

definition log_changes ::
  "env \<Rightarrow> params \<Rightarrow> followup \<Rightarrow> int \<Rightarrow> string \<Rightarrow> user option \<Rightarrow> db \<Rightarrow> ticket
     \<Rightarrow> ticket_change list \<times> ticket" where
  "log_changes ev q f old_status old_status_str old_owner d t0 =
     (let (c1, t1) = log_title f (in_title q) t0;
          (c2, t2) = log_status f (in_new_status q) old_status old_status_str t1;
          (c3, t3) = log_owner f old_owner t2;
          (c4, t4) = log_priority f (in_priority q) t3;
          (c5, t5) = log_due_date ev f (in_due_date q) t4;
          (c6, t6) = log_customer_contact f (in_customer_contact q) d t5;
          (c7, t7) = log_customer f (in_customer q) d t6;
          (c8, t8) = log_site f (in_site q) d t7;
          (c9, t9) = log_customer_product f (in_customer_product q) d t8
      in (c1 @ c2 @ c3 @ c4 @ c5 @ c6 @ c7 @ c8 @ c9, t9))"

text \<open>Lines 777--779.\<close>

definition set_resolution :: "int \<Rightarrow> string \<Rightarrow> ticket \<Rightarrow> ticket" where
  "set_resolution new_status comment t =
     (if new_status = RESOLVED_STATUS \<or> new_status = CLOSED_STATUS then
        if new_status = RESOLVED_STATUS \<or> resolution t = None then t\<lparr>resolution := Some comment\<rparr>
        else t
      else t)"

subsection \<open>The notifications (lines 781--878)\<close>

text \<open>TicketCC.email\_address (models.py, lines 1723--1728).\<close>

definition email_address :: "ticket_cc \<Rightarrow> string option" where
  "email_address cc =
     (case cc_user cc of
        Some u \<Rightarrow> if user_email u \<noteq> [] then Some (user_email u) else cc_email cc
      | None \<Rightarrow> cc_email cc)"

definition send_templated_mail :: "string \<Rightarrow> string option \<Rightarrow> mail" where
  "send_templated_mail tpl rcpt = \<lparr>template = tpl, recipients = rcpt\<rparr>"

text \<open>Lines 816--826: the loop over \<open>ticket.ticketcc_set.all()\<close>, with \<open>messages_sent_to\<close>.\<close>

fun notify_ccs :: "string \<Rightarrow> ticket_cc list \<Rightarrow> string option list \<Rightarrow> mail list \<times> string option list" where
  "notify_ccs tpl [] sent = ([], sent)"
| "notify_ccs tpl (cc # ccs) sent =
     (if email_address cc \<notin> set sent then
        (let (ms, sent') = notify_ccs tpl ccs (sent @ [email_address cc])
         in (send_templated_mail tpl (email_address cc) # ms, sent'))
      else notify_ccs tpl ccs sent)"

definition status_template :: "followup \<Rightarrow> string" where
  "status_template f =
     (if f_new_status f = Some RESOLVED_STATUS then ''resolved_''
      else if f_new_status f = Some CLOSED_STATUS then ''closed_''
      else ''updated_'')"

text \<open>Lines 791--826: the submitter and the CC entries.\<close>

definition notify_public :: "bool \<Rightarrow> followup \<Rightarrow> ticket \<Rightarrow> ticket_cc list \<Rightarrow> mail list \<times> string option list" where
  "notify_public pub f t ccs =
     (if pub \<and> (f_comment f \<noteq> [] \<or> f_new_status f = Some RESOLVED_STATUS
                 \<or> f_new_status f = Some CLOSED_STATUS) then
        (let (m0, sent0) =
               (if truthy (submitter_email t)
                then ([send_templated_mail (status_template f @ ''submitter'') (submitter_email t)],
                      [submitter_email t])
                else ([], []));
             (m1, sent1) = notify_ccs (status_template f @ ''cc'') ccs sent0
         in (m0 @ m1, sent1))
      else ([], []))"

text \<open>Lines 828--859: the assignee. The settings of the assignee are read with
  \<open>settings.get(key, False)\<close>.\<close>

definition notify_owner :: "user option \<Rightarrow> bool \<Rightarrow> followup \<Rightarrow> ticket \<Rightarrow> string option list \<Rightarrow> mail list \<times> string option list" where
  "notify_owner acting reassigned f t sent =
     (case assigned_to t of
        None \<Rightarrow> ([], sent)
      | Some a \<Rightarrow>
          if \<not> same_user acting (Some a) \<and> user_email a \<noteq> [] \<and> Some (user_email a) \<notin> set sent then
            (let template_staff =
                   (if reassigned then ''assigned_owner''
                    else if f_new_status f = Some RESOLVED_STATUS then ''resolved_owner''
                    else if f_new_status f = Some CLOSED_STATUS then ''closed_owner''
                    else ''updated_owner'')
             in if (\<not> reassigned \<or> (reassigned \<and> the_default False (email_on_ticket_assign a)))
                   \<or> (\<not> reassigned \<and> the_default False (email_on_ticket_change a))
                then ([send_templated_mail template_staff (Some (user_email a))],
                      sent @ [Some (user_email a)])
                else ([], sent))
          else ([], sent))"

text \<open>Lines 861--878: the address of the queue.\<close>

definition notify_queue :: "bool \<Rightarrow> followup \<Rightarrow> ticket \<Rightarrow> string option list \<Rightarrow> mail list" where
  "notify_queue reassigned f t sent =
     (if truthy (updated_ticket_cc (queue t)) \<and> updated_ticket_cc (queue t) \<notin> set sent then
        [send_templated_mail
           (if reassigned then ''assigned_cc''
            else if f_new_status f = Some RESOLVED_STATUS then ''resolved_cc''
            else if f_new_status f = Some CLOSED_STATUS then ''closed_cc''
            else ''updated_cc'')
           (updated_ticket_cc (queue t))]
      else [])"

definition fan_out :: "bool \<Rightarrow> user option \<Rightarrow> bool \<Rightarrow> followup \<Rightarrow> ticket \<Rightarrow> ticket_cc list \<Rightarrow> mail list" where
  "fan_out pub acting reassigned f t ccs =
     (let (m1, sent1) = notify_public pub f t ccs;
          (m2, sent2) = notify_owner acting reassigned f t sent1
      in m1 @ m2 @ notify_queue reassigned f t sent2)"

subsection \<open>The subscription of the acting user (lines 511--557, 882--886)\<close>

text \<open>\<open>str.upper()\<close>, on the letters of ASCII.\<close>

definition upper :: "string \<Rightarrow> string" where
  "upper s = map (\<lambda>c. if 97 \<le> (of_char c :: nat) \<and> (of_char c :: nat) \<le> 122
                       then char_of ((of_char c :: nat) - 32) else c) s"

text \<open>TicketCC.display (models.py, lines 1730--1735), under \<open>str()\<close>.\<close>

definition display :: "ticket_cc \<Rightarrow> string" where
  "display cc =
     (case cc_user cc of
        Some u \<Rightarrow> user_str u @ '' <'' @ user_email u @ ''>''
      | None \<Rightarrow> (case cc_email cc of Some e \<Rightarrow> e | None \<Rightarrow> ''None''))"

text \<open>The second component of \<open>return_ticketccstring_and_show_subscribe\<close>.\<close>

definition show_subscribe :: "user \<Rightarrow> ticket \<Rightarrow> ticket_cc list \<Rightarrow> bool" where
  "show_subscribe u t ccs =
     (let names = [upper (username u), upper (user_email u), upper (user_str u)];
          followers = (case submitter_email t of Some e \<Rightarrow> [upper e] | None \<Rightarrow> [])
                      @ [upper (case assigned_to t of Some a \<Rightarrow> user_str a | None \<Rightarrow> ''None'')]
      in \<not> (\<exists>cc \<in> set ccs. upper (display cc) \<in> set names)
         \<and> \<not> (\<exists>n \<in> set names. n \<in> set followers))"

definition subscribe_staff_member_to_ticket :: "ticket \<Rightarrow> user \<Rightarrow> db \<Rightarrow> db" where
  "subscribe_staff_member_to_ticket t u d =
     (if \<exists>cc \<in> set (ticket_ccs d). cc_ticket cc = tid t \<and> same_user (cc_user cc) (Some u) then d
      else d\<lparr>ticket_ccs := ticket_ccs d @
                [\<lparr>cc_ticket = tid t, cc_user = Some u, cc_email = None,
                  can_view = True, can_update = True\<rparr>]\<rparr>)"

subsection \<open>The view\<close>

datatype response = Redirect_login | Redirect_staff_view | Redirect_public_view

text \<open>What one completed update did: the ticket in memory after the last save, the
  follow-up, the flag \<open>reassigned\<close>, the rows of the change log and the messages, in the
  order of their creation.\<close>

record trace =
  tr_ticket :: ticket
  tr_followup :: followup
  tr_reassigned :: bool
  tr_changes :: "ticket_change list"
  tr_mails :: "mail list"

datatype outcome = Refused | Not_found | Raised exc | No_changes response | Updated trace response

text \<open>Lines 891--897.\<close>

definition return_to_ticket :: "user option \<Rightarrow> env \<Rightarrow> response" where
  "return_to_ticket u ev =
     (if (case u of Some x \<Rightarrow> is_staff x | None \<Rightarrow> False) \<or> allow_non_staff_update ev
      then Redirect_staff_view else Redirect_public_view)"

text \<open>Lines 636--641: the follow-up; assigning the anonymous user to \<open>f.user\<close> raises.\<close>

definition new_followup :: "env \<Rightarrow> user option \<Rightarrow> bool \<Rightarrow> string \<Rightarrow> ticket \<Rightarrow> exc + followup" where
  "new_followup ev acting pub comment t =
     (let f = \<lparr>f_id = None, f_ticket = tid t, f_date = now ev, f_title = None,
               f_comment = comment, f_public = pub, f_user = None, f_new_status = None\<rparr>
      in if (case acting of Some x \<Rightarrow> is_staff x | None \<Rightarrow> False) \<or> allow_non_staff_update ev then
           (case acting of None \<Rightarrow> Inl ValueError | Some x \<Rightarrow> Inr (f\<lparr>f_user := Some x\<rparr>))
         else Inr f)"

text \<open>Lines 882--886.\<close>

definition subscribe_acting_user :: "env \<Rightarrow> user option \<Rightarrow> ticket \<Rightarrow> db \<Rightarrow> db" where
  "subscribe_acting_user ev acting t d =
     (case acting of
        None \<Rightarrow> d
      | Some u \<Rightarrow>
          if auto_subscribe ev
             \<and> show_subscribe u t (filter (\<lambda>c. cc_ticket c = tid t) (ticket_ccs d))
          then subscribe_staff_member_to_ticket t u d
          else d)"

text \<open>Lines 659--677: the status is changed and saved, the follow-up gets its title and is
  saved (which saves the ticket again).\<close>

definition begin_update :: "env \<Rightarrow> params \<Rightarrow> followup \<Rightarrow> ticket \<Rightarrow> db \<Rightarrow> followup \<times> ticket \<times> db" where
  "begin_update ev q f t d =
     (let (f1, t2, d2) = change_status (now ev) (in_new_status q) f t d
      in followup_save ev (default_title f1) t2 d2)"

text \<open>Lines 681--888: the change log, the resolution, the messages, the last save and the
  subscription. The files of the request are handed to
  \<open>helpdesk.lib.process_attachments\<close>, and the page messages to the framework; neither is
  part of this model. Each statement is committed as it runs. Integers and texts have no
  bound here, and the database takes every row it is given: where a column of the real
  database cannot hold a value (an integer beyond its range), the view raises at the
  statement that writes it and keeps the rows written before, and is not described by
  this model.\<close>

definition finish_update ::
  "env \<Rightarrow> request \<Rightarrow> params \<Rightarrow> string \<Rightarrow> bool \<Rightarrow> int \<Rightarrow> string \<Rightarrow> user option
     \<Rightarrow> followup \<Rightarrow> ticket \<Rightarrow> db \<Rightarrow> outcome \<times> db" where
  "finish_update ev rq q comment reassigned old_status old_status_str old_owner f t3 d3 =
     (let (changes, t4) = log_changes ev q f old_status old_status_str old_owner d3 t3;
          d4 = d3\<lparr>ticket_changes := ticket_changes d3 @ changes\<rparr>;
          t5 = set_resolution (in_new_status q) comment t4;
          mails = fan_out (in_public q) (req_user rq) reassigned f t5
                    (filter (\<lambda>c. cc_ticket c = tid t5) (ticket_ccs d4));
          d5 = d4\<lparr>outbox := outbox d4 @ mails\<rparr>;
          (t6, d6) = ticket_save (now ev) t5 d5
      in (Updated \<lparr>tr_ticket = t6, tr_followup = f, tr_reassigned = reassigned,
                    tr_changes = changes, tr_mails = mails\<rparr>
            (return_to_ticket (req_user rq) ev),
          subscribe_acting_user ev (req_user rq) t6 d6))"

text \<open>Lines 633--888, once the comment is rendered and the follow-up made.\<close>

definition apply_update :: "env \<Rightarrow> request \<Rightarrow> params \<Rightarrow> string \<Rightarrow> followup \<Rightarrow> ticket \<Rightarrow> db \<Rightarrow> outcome \<times> db" where
  "apply_update ev rq q comment f0 ticket d =
     (case assign_owner (effective_owner (in_owner q) ticket) ticket d of
        Inl e \<Rightarrow> (Raised e, d)
      | Inr (t1, ttl, reassigned) \<Rightarrow>
          (let (f2, t3, d3) = begin_update ev q (f0\<lparr>f_title := ttl\<rparr>) t1 d
           in finish_update ev rq q comment reassigned (status t1)
                (get_status_display (status t1)) (assigned_to ticket) f2 t3 d3))"

text \<open>The view. \<open>is\<close> on the integers \<open>-1\<close> is equality (small integers are shared
  objects in CPython).\<close>

definition update_ticket :: "env \<Rightarrow> request \<Rightarrow> int \<Rightarrow> bool \<Rightarrow> db \<Rightarrow> outcome \<times> db" where
  "update_ticket ev rq ticket_id pub d =
     (if \<not> (pub \<or> (case req_user rq of
                       Some u \<Rightarrow> is_active u \<and> (is_staff u \<or> allow_non_staff_update ev)
                     | None \<Rightarrow> False))
      then (Refused, d)
      else case find (\<lambda>r. tid r = Some ticket_id) (tickets d) of
        None \<Rightarrow> (Not_found, d)
      | Some ticket \<Rightarrow>
         (case read_post (req_post rq) ticket of
            Inl e \<Rightarrow> (Raised e, d)
          | Inr q \<Rightarrow>
             (case no_changes q (p_files (req_post rq)) ticket d of
                Inl e \<Rightarrow> (Raised e, d)
              | Inr True \<Rightarrow> (No_changes (return_to_ticket (req_user rq) ev), d)
              | Inr False \<Rightarrow>
                 (case render ev ticket (neutralise_comment (in_comment q)) of
                    Inl e \<Rightarrow> (Raised e, d)
                  | Inr comment \<Rightarrow>
                     (case new_followup ev (req_user rq) (in_public q) comment ticket of
                        Inl e \<Rightarrow> (Raised e, d)
                      | Inr f0 \<Rightarrow> apply_update ev rq q comment f0 ticket d)))))"


section \<open>The quick update of a ticket (views/staff.py, quick\_update\_ticket, lines 266--290)\<close>

text \<open>
  The body of the view, as it runs once the decorators \<open>require_POST\<close> and
  \<open>staff_member_required\<close> have let the request in. \<open>request.POST.get('field')\<close> is a
  text or \<open>None\<close>; \<open>request.POST['value']\<close> goes through \<open>int()\<close>.
\<close>

record quick_post =
  is_ajax :: bool
  posted_field :: "string option"
  posted_value :: "int posted"

text \<open>
  The answers of the view: the \<open>Http404\<close> object it returns to a request that is not
  AJAX, the page of \<open>get_object_or_404\<close>, the payload \<open>{success: False, error: text}\<close>,
  the payload \<open>{success: True}\<close> (with \<open>mandatory_facturation: True\<close> when the flag is
  set), and an exception that leaves the view.
\<close>

datatype quick_response = Http404_object | Page_not_found | Failure string | Success bool
  | Crashed exc

definition apostrophe :: string where
  "apostrophe = [char_of (39::nat)]"

definition e_acute :: string where
  "e_acute = [char_of (195::nat), char_of (169::nat)]"

definition field_not_given :: string where
  "field_not_given = ''Le champ du ticket n'' @ apostrophe @ ''est pas sp'' @ e_acute @ ''cifi''
     @ e_acute @ ''.''"

definition value_not_given :: string where
  "value_not_given = ''La valeur n'' @ apostrophe @ ''est pas sp'' @ e_acute @ ''cifi'' @ e_acute
     @ ''.''"

definition choose_an_option :: string where
  "choose_an_option = ''Veuillez choisir une option dans la liste.''"

definition no_such_field :: string where
  "no_such_field = ''Le champ %s n'' @ apostrophe @ ''existe pas sur le ticket.''"

text \<open>
  The names \<open>save(update_fields=...)\<close> accepts for a ticket: the columns of the model but
  the primary key, a foreign key under its name and under its column name (models.py,
  lines 507--699).
\<close>

definition foreign_keys :: "string list" where
  "foreign_keys = [''queue'', ''assigned_to'', ''category'', ''type'', ''customer_contact'',
     ''customer'', ''site'', ''customer_product'', ''merged_to'', ''generic_incident'']"

definition plain_columns :: "string list" where
  "plain_columns = [''title'', ''created'', ''modified'', ''resolved'', ''closed'',
     ''submitter_email'', ''status'', ''billing'', ''on_hold'', ''description'', ''resolution'',
     ''priority'', ''due_date'', ''last_escalation'', ''link_open'', ''contact_phone_number'',
     ''quick_comment'', ''time_before_first_answer'']"

definition ticket_columns :: "string list" where
  "ticket_columns = plain_columns @ foreign_keys @ map (\<lambda>k. k @ ''_id'') foreign_keys"

text \<open>
  \<open>hasattr(ticket, field)\<close>: a ticket has its columns as attributes, and others (the
  primary key, the methods, properties and constants of the class, the reverse
  relations, what the base class of the framework gives); the latter are a parameter.
\<close>

definition hasattr :: "string list \<Rightarrow> string \<Rightarrow> bool" where
  "hasattr others field = (field \<in> set ticket_columns \<or> field \<in> set others)"

text \<open>
  Line 285, \<open>setattr(ticket, field + ('_id' if field != 'billing' else ''), value)\<close>. The
  name is \<open>billing\<close>, or the column of a foreign key, whose object is then the row of that
  key (\<open>None\<close> below when there is no such row), or a name that is no column, and the
  ticket gets an attribute that no column reads.
\<close>

definition setattr :: "string \<Rightarrow> int \<Rightarrow> ticket \<Rightarrow> db \<Rightarrow> ticket option" where
  "setattr field v t d =
     (if field = ''billing'' then Some (t\<lparr>billing := Some v\<rparr>)
      else if field = ''queue'' then map_option (\<lambda>x. t\<lparr>queue := x\<rparr>) (map_of (queues d) v)
      else if field = ''assigned_to'' then
        map_option (\<lambda>x. t\<lparr>assigned_to := Some x\<rparr>) (find (\<lambda>u. uid u = v) (users d))
      else if field = ''category'' then
        (if v \<in> set (categories d) then Some (t\<lparr>category := Some v\<rparr>) else None)
      else if field = ''type'' then
        (if v \<in> fst ` set (ticket_types d) then Some (t\<lparr>ticket_type := Some v\<rparr>) else None)
      else if field = ''customer_contact'' then
        map_option (\<lambda>x. t\<lparr>customer_contact := Some x\<rparr>) (find (\<lambda>u. uid u = v) (users d))
      else if field = ''customer'' then
        map_option (\<lambda>x. t\<lparr>customer := Some x\<rparr>) (find (\<lambda>c. cid c = v) (customers d))
      else if field = ''site'' then
        map_option (\<lambda>x. t\<lparr>site := Some x\<rparr>) (find (\<lambda>s. sid s = v) (sites d))
      else if field = ''customer_product'' then
        map_option (\<lambda>x. t\<lparr>customer_product := Some x\<rparr>) (find (\<lambda>p. pid p = v) (customer_products d))
      else if field = ''merged_to'' then
        (if \<exists>r \<in> set (tickets d). tid r = Some v then Some (t\<lparr>merged_to := Some v\<rparr>) else None)
      else if field = ''generic_incident'' then
        (if v \<in> set (incidents d) then Some (t\<lparr>generic_incident := Some v\<rparr>) else None)
      else Some t)"

text \<open>
  The column \<open>field\<close> of the row \<open>r\<close> takes the value the ticket \<open>t\<close> has in memory; the
  columns this model does not hold (\<open>on_hold\<close>, \<open>description\<close>, \<open>last_escalation\<close>,
  \<open>link_open\<close>, \<open>contact_phone_number\<close>, \<open>quick_comment\<close>) leave the row as it is.
\<close>

definition write_column :: "string \<Rightarrow> ticket \<Rightarrow> ticket \<Rightarrow> ticket" where
  "write_column field t r =
     (if field = ''title'' then r\<lparr>title := title t\<rparr>
      else if field = ''created'' then r\<lparr>created := created t\<rparr>
      else if field = ''modified'' then r\<lparr>modified := modified t\<rparr>
      else if field = ''resolved'' then r\<lparr>resolved := resolved t\<rparr>
      else if field = ''closed'' then r\<lparr>closed := closed t\<rparr>
      else if field = ''submitter_email'' then r\<lparr>submitter_email := submitter_email t\<rparr>
      else if field = ''status'' then r\<lparr>status := status t\<rparr>
      else if field = ''billing'' then r\<lparr>billing := billing t\<rparr>
      else if field = ''resolution'' then r\<lparr>resolution := resolution t\<rparr>
      else if field = ''priority'' then r\<lparr>priority := priority t\<rparr>
      else if field = ''due_date'' then r\<lparr>due_date := due_date t\<rparr>
      else if field = ''time_before_first_answer'' then
        r\<lparr>time_before_first_answer := time_before_first_answer t\<rparr>
      else if field = ''queue'' \<or> field = ''queue_id'' then r\<lparr>queue := queue t\<rparr>
      else if field = ''assigned_to'' \<or> field = ''assigned_to_id'' then r\<lparr>assigned_to := assigned_to t\<rparr>
      else if field = ''category'' \<or> field = ''category_id'' then r\<lparr>category := category t\<rparr>
      else if field = ''type'' \<or> field = ''type_id'' then r\<lparr>ticket_type := ticket_type t\<rparr>
      else if field = ''customer_contact'' \<or> field = ''customer_contact_id'' then
        r\<lparr>customer_contact := customer_contact t\<rparr>
      else if field = ''customer'' \<or> field = ''customer_id'' then r\<lparr>customer := customer t\<rparr>
      else if field = ''site'' \<or> field = ''site_id'' then r\<lparr>site := site t\<rparr>
      else if field = ''customer_product'' \<or> field = ''customer_product_id'' then
        r\<lparr>customer_product := customer_product t\<rparr>
      else if field = ''merged_to'' \<or> field = ''merged_to_id'' then r\<lparr>merged_to := merged_to t\<rparr>
      else if field = ''generic_incident'' \<or> field = ''generic_incident_id'' then
        r\<lparr>generic_incident := generic_incident t\<rparr>
      else r)"

text \<open>
  \<open>billing\<close> is a \<open>PositiveSmallIntegerField\<close> (models.py, lines 582--587): the database
  refuses a negative value, and a value above the largest that the column holds. That
  bound depends on the database (32767 with PostgreSQL) and is the parameter
  \<open>smallint_max\<close>.
\<close>

definition billing_fits :: "int \<Rightarrow> ticket \<Rightarrow> bool" where
  "billing_fits smallint_max t =
     (case billing t of None \<Rightarrow> True | Some b \<Rightarrow> 0 \<le> b \<and> b \<le> smallint_max)"

text \<open>
  Ticket.save with \<open>update_fields=[field]\<close> (models.py, lines 814--868), for a ticket
  that has an id: the steps before \<open>super().save\<close> run as in every save; \<open>super().save\<close>
  raises \<open>ValueError\<close> for a name that is no column, raises when the database refuses the
  value of the column, and otherwise writes this one column of the row; then the merged
  tickets are overridden. Each statement is committed as it runs.
\<close>

definition ticket_save_field ::
  "timestamp \<Rightarrow> int \<Rightarrow> string \<Rightarrow> ticket \<Rightarrow> db \<Rightarrow> (exc + ticket) \<times> db" where
  "ticket_save_field nw smallint_max field t0 d0 =
     (let (t1, d1) = register_submitter nw t0 d0;
          t2 = stamp_dates nw t1;
          (t3, d3) = sync_customer t2 d1
      in if field \<notin> set ticket_columns then (Inl ValueError, d3)
         else if field = ''billing'' \<and> \<not> billing_fits smallint_max t3 then (Inl DatabaseError, d3)
         else (Inr t3,
               propagate_merge t3
                 (d3\<lparr>tickets := map (\<lambda>r. if tid r = tid t3 then write_column field t3 r else r)
                                    (tickets d3)\<rparr>)))"

text \<open>
  Lines 285--290. A foreign key set to a key with no row: the customer is read by the
  save before anything is written, and the read raises; any other is refused by the
  database when the column is written.
\<close>

definition store_field ::
  "timestamp \<Rightarrow> int \<Rightarrow> string \<Rightarrow> int \<Rightarrow> ticket \<Rightarrow> db \<Rightarrow> quick_response \<times> db" where
  "store_field nw smallint_max field v ticket d =
     (case setattr field v ticket d of
        None \<Rightarrow>
          if field = ''customer'' then (Crashed DoesNotExist, d)
          else (Crashed DatabaseError, snd (sync_customer (stamp_dates nw ticket) d))
      | Some t1 \<Rightarrow>
          (case ticket_save_field nw smallint_max field t1 d of
             (Inl e, d') \<Rightarrow> (Crashed e, d')
           | (Inr t, d') \<Rightarrow>
               (case find (\<lambda>r. tid r = tid t) (tickets d') of
                  None \<Rightarrow> (Crashed DoesNotExist, d')
                | Some refreshed \<Rightarrow>
                    (Success (field = ''type''
                              \<and> (case ticket_type refreshed of
                                    None \<Rightarrow> False
                                  | Some k \<Rightarrow> the_default False (map_of (ticket_types d') k))),
                     d'))))"

definition quick_update_ticket ::
  "timestamp \<Rightarrow> string list \<Rightarrow> int \<Rightarrow> quick_post \<Rightarrow> int \<Rightarrow> db \<Rightarrow> quick_response \<times> db" where
  "quick_update_ticket nw others smallint_max rq ticket_id d =
     (if \<not> is_ajax rq then (Http404_object, d)
      else case find (\<lambda>r. tid r = Some ticket_id) (tickets d) of
        None \<Rightarrow> (Page_not_found, d)
      | Some ticket \<Rightarrow>
          if \<not> truthy (posted_field rq) then (Failure field_not_given, d)
          else (case posted_value rq of
                  Absent \<Rightarrow> (Failure value_not_given, d)
                | Blank \<Rightarrow> (Failure choose_an_option, d)
                | Malformed \<Rightarrow> (Failure choose_an_option, d)
                | Posted v \<Rightarrow>
                    if \<not> hasattr others (the_default [] (posted_field rq))
                    then (Failure no_such_field, d)
                    else store_field nw smallint_max (the_default [] (posted_field rq)) v ticket d))"


section \<open>The saved queries of the ticket list (views/staff.py, ticket\_list, lines 1068--1101 and 1201--1203)\<close>

text \<open>
  The list view keeps the filter specification in a dictionary, \<open>query_params\<close>, with the
  keys \<open>filtering\<close>, \<open>sorting\<close>, \<open>sortreverse\<close>, \<open>keyword\<close> and \<open>search_string\<close>. The values
  that such a dictionary holds are the values \<open>json\<close> writes and reads.
\<close>

datatype json = JNull | JBool bool | JInt int | JStr string | JList "json list"
  | JDict "(string \<times> json) list"

text \<open>A \<open>bytes\<close> object is a list of 8-bit characters.\<close>

type_synonym bytes = string

text \<open>
  The exceptions of the decoding steps. \<open>binascii.Error\<close>, \<open>UnicodeDecodeError\<close> and
  \<open>json.JSONDecodeError\<close> are subclasses of \<open>ValueError\<close>; \<open>Not_ASCII\<close> is the plain
  \<open>ValueError\<close> that the base-64 decoder raises on a text with a character above 127;
  \<open>Other_error\<close> stands for every exception that is not a \<open>ValueError\<close>.
\<close>

datatype error_class = Binascii_Error | Not_ASCII | UnicodeDecodeError | JSONDecodeError | Other_error

definition is_ValueError :: "error_class \<Rightarrow> bool" where
  "is_ValueError e = (e \<noteq> Other_error)"

text \<open>
  The standard library is a parameter of the view: \<open>json.dumps\<close>, \<open>json.loads\<close>,
  \<open>str.encode('UTF-8')\<close> and \<open>bytes.decode()\<close>.
\<close>

record codec =
  json_dumps :: "json \<Rightarrow> string"
  json_loads :: "string \<Rightarrow> error_class + json"
  str_encode :: "string \<Rightarrow> bytes"
  bytes_decode :: "bytes \<Rightarrow> error_class + string"

subsection \<open>Base 64\<close>

text \<open>
  Modelled from the spec: the view imports \<open>b64encode\<close> and \<open>b64decode\<close> from
  \<open>helpdesk.lib\<close>, whose source is missing. The specification says that a saved query is
  stored as a base64-encoded string. The two functions are modelled as base 64 with the
  alphabet that is safe in a URL (the view calls the result \<open>urlsafe_query\<close>): three bytes
  give four symbols of six bits each, and \<open>=\<close> pads the last group.
\<close>

definition alphabet :: string where
  "alphabet = ''ABCDEFGHIJKLMNOPQRSTUVWXYZabcdefghijklmnopqrstuvwxyz0123456789-_''"

definition symbol :: "nat \<Rightarrow> char" where
  "symbol n = alphabet ! n"

text \<open>The value of a symbol. The decoder also takes \<open>+\<close> and \<open>/\<close>, the last two symbols of
  the standard alphabet.\<close>

definition sextet :: "char \<Rightarrow> nat option" where
  "sextet c = map_of (zip alphabet [0 ..< 64] @ [(CHR ''+'', 62), (CHR ''/'', 63)]) c"

fun b64encode :: "bytes \<Rightarrow> bytes" where
  "b64encode [] = []"
| "b64encode [a] =
     [symbol (of_char a div 4), symbol (of_char a mod 4 * 16), CHR ''='', CHR ''='']"
| "b64encode [a, b] =
     [symbol (of_char a div 4), symbol (of_char a mod 4 * 16 + of_char b div 16),
      symbol (of_char b mod 16 * 4), CHR ''='']"
| "b64encode (a # b # c # rest) =
     [symbol (of_char a div 4), symbol (of_char a mod 4 * 16 + of_char b div 16),
      symbol (of_char b mod 16 * 4 + of_char c div 64), symbol (of_char c mod 64)]
     @ b64encode rest"

text \<open>The bytes that two, three or four symbols of a group stand for.\<close>

fun bytes_of :: "nat list \<Rightarrow> bytes" where
  "bytes_of [a, b] = [char_of (a * 4 + b div 16)]"
| "bytes_of [a, b, c] = [char_of (a * 4 + b div 16), char_of (b mod 16 * 16 + c div 4)]"
| "bytes_of [a, b, c, d] =
     [char_of (a * 4 + b div 16), char_of (b mod 16 * 16 + c div 4), char_of (c mod 4 * 64 + d)]"
| "bytes_of _ = []"

text \<open>
  The decoder reads the text from left to right, \<open>quad\<close> holding the symbols of the group
  being read and \<open>pads\<close> the padding characters seen since the last symbol. A character that
  is neither a symbol nor the padding is discarded; the padding that completes a group ends
  the decoding, whatever follows; a text that ends inside a group is an error.
\<close>

fun a2b_base64 :: "nat list \<Rightarrow> nat \<Rightarrow> string \<Rightarrow> error_class + bytes" where
  "a2b_base64 quad pads [] = (if quad = [] then Inr [] else Inl Binascii_Error)"
| "a2b_base64 quad pads (c # cs) =
     (if c = CHR ''='' then
        (if 2 \<le> length quad \<and> 4 \<le> length quad + Suc pads then Inr (bytes_of quad)
         else a2b_base64 quad (Suc pads) cs)
      else case sextet c of
        None \<Rightarrow> a2b_base64 quad pads cs
      | Some v \<Rightarrow>
          if length quad = 3
          then (case a2b_base64 [] 0 cs of
                  Inl e \<Rightarrow> Inl e
                | Inr bs \<Rightarrow> Inr (bytes_of (quad @ [v]) @ bs))
          else a2b_base64 (quad @ [v]) 0 cs)"

definition b64decode :: "string \<Rightarrow> error_class + bytes" where
  "b64decode s =
     (if \<exists>c \<in> set s. 128 \<le> (of_char c :: nat) then Inl Not_ASCII else a2b_base64 [] 0 s)"

subsection \<open>Writing the query (lines 1201--1203)\<close>

text \<open>\<open>urlsafe_query = b64encode(json.dumps(query_params).encode('UTF-8'))\<close>\<close>

definition urlsafe_query :: "codec \<Rightarrow> json \<Rightarrow> bytes" where
  "urlsafe_query L query_params = b64encode (str_encode L (json_dumps L query_params))"


subsection \<open>Reading the query (lines 1078--1084)\<close>

text \<open>\<open>s.lstrip(chars)\<close> drops the leading characters of \<open>s\<close> that occur in \<open>chars\<close>.\<close>

definition lstrip :: "string \<Rightarrow> string \<Rightarrow> string" where
  "lstrip chars s = dropWhile (\<lambda>c. c \<in> set chars) s"

text \<open>The argument of \<open>lstrip\<close> at line 1081: the letter b, the backslash and the apostrophe.\<close>

definition quoting :: string where
  "quoting = [CHR ''b'', CHR 0x5C, CHR 0x27]"

text \<open>\<open>json.loads(b64decode(str(saved_query.query).lstrip(...)).decode())\<close>; the column is a
  text, on which \<open>str\<close> is the identity.\<close>

definition deserialise :: "codec \<Rightarrow> string \<Rightarrow> error_class + json" where
  "deserialise L query =
     and_then (b64decode (lstrip quoting query)) (\<lambda>raw.
     and_then (bytes_decode L raw) (json_loads L))"

text \<open>
  The \<open>try\<close> statement: \<open>except ValueError\<close> answers with a redirection to
  \<open>helpdesk:list\<close>; any other exception leaves the view.
\<close>

datatype loaded = Query_params json | Redirect_list | Uncaught error_class

definition load_saved_query :: "codec \<Rightarrow> string \<Rightarrow> loaded" where
  "load_saved_query L query =
     (case deserialise L query of
        Inr query_params \<Rightarrow> Query_params query_params
      | Inl e \<Rightarrow> if is_ValueError e then Redirect_list else Uncaught e)"

subsection \<open>The specification the list uses (lines 1068--1175)\<close>

text \<open>The specification of a request that asks for nothing (lines 1097--1101).\<close>

definition default_query_params :: json where
  "default_query_params =
     JDict [(''filtering'', JDict [(''status__in'', JList [JInt 1, JInt 2, JInt 3])]),
            (''sorting'', JStr ''created''),
            (''sortreverse'', JBool True)]"

text \<open>
  What the request asks for: \<open>Saved query\<close> when it names a saved search that exists and that
  the user may see, \<open>query\<close> being its stored text (lines 1069--1076 redirect to the list
  otherwise); \<open>Filters built\<close> when it carries one of the keys \<open>queue\<close>, \<open>assigned_to\<close>,
  \<open>status\<close>, \<open>q\<close>, \<open>sort\<close>, \<open>sortreverse\<close>, \<open>built\<close> being the dictionary that lines 1102--1175
  make of them; \<open>Nothing\<close> otherwise, which is the request the redirection to
  \<open>helpdesk:list\<close> leads to.
\<close>

datatype source = Saved string | Filters json | Nothing

definition query_params_for :: "codec \<Rightarrow> source \<Rightarrow> loaded" where
  "query_params_for L src =
     (case src of
        Saved query \<Rightarrow> load_saved_query L query
      | Nothing \<Rightarrow> Query_params default_query_params
      | Filters built \<Rightarrow> Query_params built)"

section \<open>Notions used in the statements\<close>

text \<open>The fields that a save of the merge target writes onto the tickets merged into it.\<close>

definition overridden ::
  "ticket \<Rightarrow> user option \<times> int option \<times> int option \<times> int option \<times> customer option
     \<times> site option \<times> customer_product option" where
  "overridden r = (assigned_to r, category r, ticket_type r, billing r, customer r, site r,
                   customer_product r)"

text \<open>A ticket is settled in a database when a save would not give it a customer: it has
  one, or no row of SimpleUserMail has both its submitter's address and a customer.\<close>

definition settled :: "ticket \<Rightarrow> db \<Rightarrow> bool" where
  "settled t d =
     (case customer t of
        Some c \<Rightarrow> True
      | None \<Rightarrow>
          (case submitter_email t of
             None \<Rightarrow> True
           | Some e \<Rightarrow> (case simple_user_mails d e of Some (Some c) \<Rightarrow> False | _ \<Rightarrow> True)))"

text \<open>The assignee of a ticket is a row of the user table, and its primary key is
  positive (the keys of the database are).\<close>

definition valid_assignee :: "ticket \<Rightarrow> db \<Rightarrow> bool" where
  "valid_assignee t d =
     (case assigned_to t of
        None \<Rightarrow> True
      | Some u \<Rightarrow> 0 < uid u \<and> (\<exists>v \<in> set (users d). uid v = uid u))"

text \<open>The owner a request proposes is the current one: the field is omitted (\<open>-1\<close>), or
  carries the id of the assignee, or \<open>0\<close> (unassigned) when there is no assignee.\<close>

definition owner_is_current :: "int \<Rightarrow> ticket \<Rightarrow> bool" where
  "owner_is_current owner t =
     (owner = - 1 \<or> owner = (case assigned_to t of None \<Rightarrow> 0 | Some u \<Rightarrow> uid u))"

text \<open>No files, no comment, and every proposed field equals its current value on the
  ticket.\<close>

definition proposes_no_change :: "params \<Rightarrow> string list \<Rightarrow> ticket \<Rightarrow> bool" where
  "proposes_no_change q files t =
     (files = [] \<and> in_comment q = [] \<and> in_new_status q = status t \<and> in_title q = title t
      \<and> in_priority q = priority t \<and> in_due_date q = due_date t
      \<and> owner_is_current (in_owner q) t
      \<and> in_customer q = map_option cid (customer t)
      \<and> in_customer_contact q = map_option uid (customer_contact t)
      \<and> in_site q = map_option sid (site t)
      \<and> in_customer_product q = map_option pid (customer_product t))"

text \<open>The request passes the test of access at the head of the view.\<close>

definition may_update :: "env \<Rightarrow> request \<Rightarrow> bool \<Rightarrow> bool" where
  "may_update ev rq pub =
     (pub \<or> (case req_user rq of
               Some u \<Rightarrow> is_active u \<and> (is_staff u \<or> allow_non_staff_update ev)
             | None \<Rightarrow> False))"

text \<open>Two tickets agree on the fields that no save changes; two databases agree on the
  tables that no save of a ticket or of a follow-up changes.\<close>

definition kept :: "ticket \<Rightarrow> ticket \<Rightarrow> bool" where
  "kept t' t = (title t' = title t \<and> queue t' = queue t \<and> submitter_email t' = submitter_email t
     \<and> assigned_to t' = assigned_to t \<and> due_date t' = due_date t
     \<and> customer_contact t' = customer_contact t \<and> site t' = site t
     \<and> customer_product t' = customer_product t \<and> resolution t' = resolution t)"

definition same_tables :: "db \<Rightarrow> db \<Rightarrow> bool" where
  "same_tables d' d = (users d' = users d \<and> customers d' = customers d \<and> sites d' = sites d
     \<and> customer_products d' = customer_products d \<and> ticket_ccs d' = ticket_ccs d
     \<and> ticket_changes d' = ticket_changes d \<and> outbox d' = outbox d)"

subsection \<open>The change log a request calls for\<close>

datatype field = Title | Status | Owner | Priority | Due_on | Contact_client | Client
  | Site_field | Produit_client


fun label :: "field \<Rightarrow> string" where
  "label Title = ''Title''"
| "label Status = ''Status''"
| "label Owner = ''Owner''"
| "label Priority = ''Priority''"
| "label Due_on = ''Due on''"
| "label Contact_client = ''Contact client''"
| "label Client = ''Client''"
| "label Site_field = ''Site''"
| "label Produit_client = ''Produit client''"






subsection \<open>The messages\<close>

text \<open>The title of a follow-up that records an assignment.\<close>

definition assignment_title :: "string \<Rightarrow> bool" where
  "assignment_title s = (take 12 s = ''Assigned to '' \<or> take 10 s = ''Unassigned'')"

subsection \<open>The quick update\<close>





subsection \<open>The saved queries\<close>

text \<open>
  What the view expects of the standard library for a specification \<open>q\<close>: the text that
  \<open>json.dumps\<close> writes is read back by \<open>json.loads\<close> as \<open>q\<close>, and its bytes are decoded
  back to it.
\<close>

definition reads_back :: "codec \<Rightarrow> json \<Rightarrow> bool" where
  "reads_back L q \<longleftrightarrow>
     bytes_decode L (str_encode L (json_dumps L q)) = Inr (json_dumps L q)
     \<and> json_loads L (json_dumps L q) = Inr q"



section \<open>Example data\<close>

definition alice :: user where
  "alice = \<lparr>uid = 1, username = ''alice'', user_email = ''alice@example.org'',
     user_str = ''Alice A'', is_staff = True, is_active = True,
     email_on_ticket_assign = Some True, email_on_ticket_change = Some False\<rparr>"

definition bob :: user where
  "bob = \<lparr>uid = 2, username = ''bob'', user_email = ''bob@example.org'',
     user_str = ''Bob B'', is_staff = True, is_active = True,
     email_on_ticket_assign = Some True, email_on_ticket_change = Some True\<rparr>"

definition acme :: customer where
  "acme = \<lparr>cid = 7, customer_str = ''ACME''\<rparr>"

definition support :: queue where
  "support = \<lparr>from_address = ''Support <support@example.org>'', updated_ticket_cc = None\<rparr>"

definition printer_ticket :: ticket where
  "printer_ticket = \<lparr>tid = Some 1, title = ''Printer'', queue = support, created = Some 10,
     modified = Some 10, resolved = None, closed = None,
     submitter_email = Some ''carol@example.org'', assigned_to = Some alice,
     status = OPEN_STATUS, category = None, ticket_type = None, billing = None,
     resolution = Some [], priority = 3, due_date = None, customer_contact = None,
     customer = None, site = None, customer_product = None,
     time_before_first_answer = None, merged_to = None, generic_incident = None\<rparr>"

definition merged_ticket :: ticket where
  "merged_ticket = printer_ticket\<lparr>tid := Some 2, title := ''Printer again'',
     assigned_to := None, merged_to := Some 1\<rparr>"

definition office_db :: db where
  "office_db = \<lparr>tickets = [printer_ticket, merged_ticket], next_ticket_id = 3,
     users = [alice, bob], customers = [acme], sites = [], customer_products = [],
     queues = [(1, support)], categories = [1, 2], ticket_types = [(1, False), (2, True)],
     incidents = [], simple_user_mails = Map.empty, followups = [], next_followup_id = 1,
     ticket_changes = [], ticket_ccs = [], outbox = []\<rparr>"

definition plain_env :: env where
  "plain_env = \<lparr>now = 50, render = (\<lambda>t c. Inr c), format_date = str_int,
     office_time_between = (\<lambda>a b. 0), allow_non_staff_update = False, auto_subscribe = False\<rparr>"

definition empty_post :: post where
  "empty_post = \<lparr>p_comment = [], p_new_status = Absent, p_title = [], p_public = False,
     p_owner = Absent, p_priority = Absent, p_due_date = Absent, p_customer_contact = Absent,
     p_customer = Absent, p_site = Absent, p_customer_product = Absent, p_files = []\<rparr>"

definition carol_cc :: ticket_cc where
  "carol_cc = \<lparr>cc_ticket = Some 1, cc_user = None, cc_email = Some ''carol@example.org'',
     can_view = True, can_update = False\<rparr>"

definition alice_cc :: ticket_cc where
  "alice_cc = \<lparr>cc_ticket = Some 1, cc_user = Some alice, cc_email = None,
     can_view = True, can_update = True\<rparr>"

definition followed_db :: db where
  "followed_db = office_db\<lparr>ticket_ccs := [carol_cc, alice_cc]\<rparr>"

text \<open>A queue whose address for updates holds two addresses, one of them the submitter's.\<close>

definition shared_queue :: queue where
  "shared_queue = \<lparr>from_address = ''Support <support@example.org>'',
     updated_ticket_cc = Some ''carol@example.org,dave@example.org''\<rparr>"

definition shared_db :: db where
  "shared_db = office_db\<lparr>tickets := [printer_ticket\<lparr>queue := shared_queue\<rparr>, merged_ticket]\<rparr>"

definition public_comment :: request where
  "public_comment = \<lparr>req_user = Some bob,
     req_post = empty_post\<lparr>p_comment := ''Any news?'', p_title := ''Printer'', p_public := True\<rparr>\<rparr>"

definition private_comment :: request where
  "private_comment = \<lparr>req_user = Some bob,
     req_post = empty_post\<lparr>p_comment := ''Any news?'', p_title := ''Printer''\<rparr>\<rparr>"




definition ajax_post :: "string \<Rightarrow> int \<Rightarrow> quick_post" where
  "ajax_post field v = \<lparr>is_ajax = True, posted_field = Some field, posted_value = Posted v\<rparr>"

subsection \<open>A library for the saved queries\<close>

text \<open>
  \<open>json.dumps\<close> with its default separators and \<open>ensure_ascii\<close>: a character outside the
  printable ASCII range is written as an escape.
\<close>

definition hex_digit :: "nat \<Rightarrow> char" where
  "hex_digit n = ''0123456789abcdef'' ! n"

definition escape :: "char \<Rightarrow> string" where
  "escape c =
     (if c = CHR 0x22 then [CHR 0x5C, CHR 0x22]
      else if c = CHR 0x5C then [CHR 0x5C, CHR 0x5C]
      else if c = CHR 0x0A then [CHR 0x5C, CHR ''n'']
      else if c = CHR 0x0D then [CHR 0x5C, CHR ''r'']
      else if c = CHR 0x09 then [CHR 0x5C, CHR ''t'']
      else if c = CHR 0x08 then [CHR 0x5C, CHR ''b'']
      else if c = CHR 0x0C then [CHR 0x5C, CHR ''f'']
      else if (of_char c :: nat) < 32 \<or> 126 < (of_char c :: nat)
      then [CHR 0x5C, CHR ''u'', CHR ''0'', CHR ''0'',
            hex_digit (of_char c div 16), hex_digit (of_char c mod 16)]
      else [c])"

definition quoted :: "string \<Rightarrow> string" where
  "quoted s = CHR 0x22 # concat (map escape s) @ [CHR 0x22]"

fun join :: "string \<Rightarrow> string list \<Rightarrow> string" where
  "join sep [] = []"
| "join sep [x] = x"
| "join sep (x # y # ys) = x @ sep @ join sep (y # ys)"

fun dumps :: "json \<Rightarrow> string" where
  "dumps JNull = ''null''"
| "dumps (JBool b) = (if b then ''true'' else ''false'')"
| "dumps (JInt i) = str_int i"
| "dumps (JStr s) = quoted s"
| "dumps (JList xs) = ''['' @ join '', '' (map dumps xs) @ '']''"
| "dumps (JDict kvs) =
     ''{'' @ join '', '' (map (\<lambda>kv. quoted (fst kv) @ '': '' @ dumps (snd kv)) kvs) @ ''}''"

text \<open>
  \<open>json.loads\<close> on the texts made of objects, arrays, strings, integers, \<open>true\<close>, \<open>false\<close>
  and \<open>null\<close>. A number with a fraction or an exponent, and an escape for a character
  beyond the first 256, have no value in this model and are refused here.
\<close>

definition is_space :: "char \<Rightarrow> bool" where
  "is_space c = (c = CHR '' '' \<or> c = CHR 0x0A \<or> c = CHR 0x0D \<or> c = CHR 0x09)"

definition is_digit :: "char \<Rightarrow> bool" where
  "is_digit c = (48 \<le> (of_char c :: nat) \<and> (of_char c :: nat) \<le> 57)"

definition number :: "string \<Rightarrow> int" where
  "number ds = foldl (\<lambda>n c. 10 * n + (int (of_char c) - 48)) 0 ds"

definition hex_value :: "char \<Rightarrow> nat option" where
  "hex_value c =
     (if is_digit c then Some (of_char c - 48)
      else if 97 \<le> (of_char c :: nat) \<and> (of_char c :: nat) \<le> 102 then Some (of_char c - 87)
      else if 65 \<le> (of_char c :: nat) \<and> (of_char c :: nat) \<le> 70 then Some (of_char c - 55)
      else None)"

definition unescape :: "char \<Rightarrow> char option" where
  "unescape c =
     (if c = CHR 0x22 \<or> c = CHR 0x5C \<or> c = CHR ''/'' then Some c
      else if c = CHR ''n'' then Some (CHR 0x0A)
      else if c = CHR ''r'' then Some (CHR 0x0D)
      else if c = CHR ''t'' then Some (CHR 0x09)
      else if c = CHR ''b'' then Some (CHR 0x08)
      else if c = CHR ''f'' then Some (CHR 0x0C)
      else None)"

text \<open>The four hexadecimal digits of an escape, when they name one of the first 256
  characters.\<close>

definition code_point :: "string \<Rightarrow> char option" where
  "code_point ds =
     (case map hex_value ds of
        [Some 0, Some 0, Some c, Some d] \<Rightarrow> Some (char_of (c * 16 + d))
      | _ \<Rightarrow> None)"

text \<open>The text of a string after its opening quote, and what follows its closing quote.\<close>

fun read_text :: "bool \<Rightarrow> string \<Rightarrow> (string \<times> string) option" where
  "read_text escaped [] = None"
| "read_text escaped (c # cs) =
     (if escaped then
        (if c = CHR ''u'' then
           (case code_point (take 4 cs) of
              None \<Rightarrow> None
            | Some u \<Rightarrow> map_option (apfst ((#) u)) (read_text False (drop 4 cs)))
         else
           (case unescape c of
              None \<Rightarrow> None
            | Some u \<Rightarrow> map_option (apfst ((#) u)) (read_text False cs)))
      else if c = CHR 0x22 then Some ([], cs)
      else if c = CHR 0x5C then read_text True cs
      else if (of_char c :: nat) < 32 then None
      else map_option (apfst ((#) c)) (read_text False cs))"

definition starts :: "string \<Rightarrow> string \<Rightarrow> bool" where
  "starts w s = (take (length w) s = w)"

text \<open>An integer: an optional sign, then \<open>0\<close> or digits that do not begin with \<open>0\<close>, and no
  fraction or exponent after them.\<close>

definition read_number :: "string \<Rightarrow> (json \<times> string) option" where
  "read_number s =
     (let negative = starts ''-'' s;
          body = (if negative then drop 1 s else s);
          ds = (if starts ''0'' body then ''0'' else takeWhile is_digit body);
          rest = drop (length ds) body
      in if ds = [] \<or> starts ''.'' rest \<or> starts ''e'' rest \<or> starts ''E'' rest then None
         else Some (JInt (if negative then - number ds else number ds), rest))"

text \<open>A value, the elements of an array after its bracket and the members of an object
  after its brace; the first argument bounds the depth of the calls.\<close>

fun read_value :: "nat \<Rightarrow> string \<Rightarrow> (json \<times> string) option"
  and read_items :: "nat \<Rightarrow> string \<Rightarrow> (json list \<times> string) option"
  and read_members :: "nat \<Rightarrow> string \<Rightarrow> ((string \<times> json) list \<times> string) option" where
  "read_value 0 s = None"
| "read_value (Suc n) s =
     (case dropWhile is_space s of
        [] \<Rightarrow> None
      | c # cs \<Rightarrow>
          if c = CHR 0x22 then map_option (apfst JStr) (read_text False cs)
          else if c = CHR ''['' then
            (case dropWhile is_space cs of
               [] \<Rightarrow> None
             | d # ds \<Rightarrow> if d = CHR '']'' then Some (JList [], ds)
                         else map_option (apfst JList) (read_items n cs))
          else if c = CHR ''{'' then
            (case dropWhile is_space cs of
               [] \<Rightarrow> None
             | d # ds \<Rightarrow> if d = CHR ''}'' then Some (JDict [], ds)
                         else map_option (apfst JDict) (read_members n cs))
          else if starts ''null'' (c # cs) then Some (JNull, drop 4 (c # cs))
          else if starts ''true'' (c # cs) then Some (JBool True, drop 4 (c # cs))
          else if starts ''false'' (c # cs) then Some (JBool False, drop 5 (c # cs))
          else read_number (c # cs))"
| "read_items 0 s = None"
| "read_items (Suc n) s =
     (case read_value n s of
        None \<Rightarrow> None
      | Some (v, rest) \<Rightarrow>
          (case dropWhile is_space rest of
             [] \<Rightarrow> None
           | c # cs \<Rightarrow>
               if c = CHR '','' then map_option (apfst ((#) v)) (read_items n cs)
               else if c = CHR '']'' then Some ([v], cs)
               else None))"
| "read_members 0 s = None"
| "read_members (Suc n) s =
     (case dropWhile is_space s of
        [] \<Rightarrow> None
      | q # qs \<Rightarrow>
          if q \<noteq> CHR 0x22 then None
          else
            (case read_text False qs of
               None \<Rightarrow> None
             | Some (k, rest) \<Rightarrow>
                 (case dropWhile is_space rest of
                    [] \<Rightarrow> None
                  | c # cs \<Rightarrow>
                      if c \<noteq> CHR '':'' then None
                      else
                        (case read_value n cs of
                           None \<Rightarrow> None
                         | Some (v, rest') \<Rightarrow>
                             (case dropWhile is_space rest' of
                                [] \<Rightarrow> None
                              | e # es \<Rightarrow>
                                  if e = CHR '','' then
                                    map_option (apfst ((#) (k, v))) (read_members n es)
                                  else if e = CHR ''}'' then Some ([(k, v)], es)
                                  else None)))))"

definition loads :: "string \<Rightarrow> error_class + json" where
  "loads s =
     (case read_value (2 * length s + 2) s of
        None \<Rightarrow> Inl JSONDecodeError
      | Some (v, rest) \<Rightarrow> if dropWhile is_space rest = [] then Inr v else Inl JSONDecodeError)"

text \<open>
  UTF-8 on the first 256 characters: one byte below 128, two bytes from 128 on. The
  decoder refuses every other sequence of bytes; those that stand for a character beyond
  the first 256 have no value in this model.
\<close>

definition utf8_encode :: "string \<Rightarrow> bytes" where
  "utf8_encode s =
     concat (map (\<lambda>c. if (of_char c :: nat) < 128 then [c]
                       else [char_of (192 + (of_char c :: nat) div 64),
                             char_of (128 + (of_char c :: nat) mod 64)]) s)"

fun utf8_decode :: "bytes \<Rightarrow> error_class + string" where
  "utf8_decode [] = Inr []"
| "utf8_decode [b] = (if (of_char b :: nat) < 128 then Inr [b] else Inl UnicodeDecodeError)"
| "utf8_decode (b # c # bs) =
     (if (of_char b :: nat) < 128 then and_then (utf8_decode (c # bs)) (\<lambda>s. Inr (b # s))
      else if (of_char b :: nat) \<in> {194, 195} \<and> 128 \<le> (of_char c :: nat) \<and> (of_char c :: nat) < 192
      then and_then (utf8_decode bs)
             (\<lambda>s. Inr (char_of (((of_char b :: nat) - 192) * 64 + ((of_char c :: nat) - 128)) # s))
      else Inl UnicodeDecodeError)"

definition plain_codec :: codec where
  "plain_codec = \<lparr>json_dumps = dumps, json_loads = loads, str_encode = utf8_encode,
                   bytes_decode = utf8_decode\<rparr>"




section \<open>Ticket.save: the status dates\<close>

lemma sync_customer_dates:
  "status (fst (sync_customer t d)) = status t"
  "resolved (fst (sync_customer t d)) = resolved t"
  "closed (fst (sync_customer t d)) = closed t"
  by (simp_all add: sync_customer_def Let_def split: option.splits prod.splits)

lemma write_row_dates:
  "status (fst (write_row t d)) = status t"
  "resolved (fst (write_row t d)) = resolved t"
  "closed (fst (write_row t d)) = closed t"
  by (simp_all add: write_row_def Let_def split: option.splits)

lemma register_submitter_dates:
  "status (fst (register_submitter nw t d)) = status t"
  "resolved (fst (register_submitter nw t d)) = resolved t"
  "closed (fst (register_submitter nw t d)) = closed t"
  by (simp_all add: register_submitter_def)

lemma stamp_dates_status: "status (stamp_dates nw t) = status t"
  by (simp add: stamp_dates_def Let_def)

lemma stamp_dates_resolved:
  "resolved (stamp_dates nw t) =
     (if status t = 3 \<and> resolved t = None then Some nw
      else if status t = 1 \<or> status t = 2 then None
      else resolved t)"
  by (simp add: stamp_dates_def Let_def status_defs)

lemma stamp_dates_closed:
  "closed (stamp_dates nw t) =
     (if status t = 3 \<and> resolved t = None then None
      else if (status t = 4 \<or> status t = 5) \<and> closed t = None then Some nw
      else if status t = 1 \<or> status t = 2 then None
      else closed t)"
  by (auto simp add: stamp_dates_def Let_def status_defs)

lemma ticket_save_status: "status (fst (ticket_save nw t d)) = status t"
  by (simp add: ticket_save_def Let_def split_beta sync_customer_dates write_row_dates
       register_submitter_dates stamp_dates_status)

lemma ticket_save_resolved:
  "resolved (fst (ticket_save nw t d)) =
     (if status t = 3 \<and> resolved t = None then Some nw
      else if status t = 1 \<or> status t = 2 then None
      else resolved t)"
  by (simp add: ticket_save_def Let_def split_beta sync_customer_dates write_row_dates
       stamp_dates_resolved register_submitter_dates)

lemma ticket_save_closed:
  "closed (fst (ticket_save nw t d)) =
     (if status t = 3 \<and> resolved t = None then None
      else if (status t = 4 \<or> status t = 5) \<and> closed t = None then Some nw
      else if status t = 1 \<or> status t = 2 then None
      else closed t)"
  by (simp add: ticket_save_def Let_def split_beta sync_customer_dates write_row_dates
       stamp_dates_closed register_submitter_dates)

text \<open>
  Claim C1, as amended. On every save of a ticket, the status is kept and: a Resolved
  ticket with no resolved date gets the date of the save and loses its closed date (a
  resolved date already set is kept); a Closed or Duplicate ticket with no closed date
  gets the date of the save, and its resolved date stays as it was; an Open or Reopened
  ticket loses both dates. So after the save a Resolved ticket has a resolved date, a
  Closed or Duplicate ticket has a closed date, and an Open or Reopened ticket has
  neither.
\<close>

theorem ticket_save_status_dates:
  "(let t' = fst (ticket_save nw t d) in
      status t' = status t
    \<and> (status t = RESOLVED_STATUS \<and> resolved t = None \<longrightarrow>
         resolved t' = Some nw \<and> closed t' = None)
    \<and> (status t = RESOLVED_STATUS \<and> resolved t \<noteq> None \<longrightarrow> resolved t' = resolved t)
    \<and> (status t = CLOSED_STATUS \<or> status t = DUPLICATE_STATUS \<longrightarrow>
         closed t' = (if closed t = None then Some nw else closed t) \<and> resolved t' = resolved t)
    \<and> (status t = OPEN_STATUS \<or> status t = REOPENED_STATUS \<longrightarrow>
         resolved t' = None \<and> closed t' = None)
    \<and> (status t = RESOLVED_STATUS \<longrightarrow> resolved t' \<noteq> None)
    \<and> (status t = CLOSED_STATUS \<or> status t = DUPLICATE_STATUS \<longrightarrow> closed t' \<noteq> None))"
  unfolding Let_def ticket_save_status ticket_save_resolved ticket_save_closed status_defs
  by auto

text \<open>A resolved ticket that had kept a closed date is saved: the resolved date is set
  and the closed date cleared.\<close>

theorem ticket_save_status_dates_witness:
  "status (printer_ticket\<lparr>status := RESOLVED_STATUS, closed := Some 20\<rparr>) = RESOLVED_STATUS
   \<and> resolved (printer_ticket\<lparr>status := RESOLVED_STATUS, closed := Some 20\<rparr>) = None
   \<and> resolved (fst (ticket_save 30 (printer_ticket\<lparr>status := RESOLVED_STATUS, closed := Some 20\<rparr>)
         office_db)) = Some 30
   \<and> closed (fst (ticket_save 30 (printer_ticket\<lparr>status := RESOLVED_STATUS, closed := Some 20\<rparr>)
         office_db)) = None"
  using ticket_save_status_dates
    [of 30 "printer_ticket\<lparr>status := RESOLVED_STATUS, closed := Some 20\<rparr>" office_db]
  by (simp add: Let_def printer_ticket_def status_defs)

text \<open>The claim as stated fails: closing a resolved ticket leaves both dates set.\<close>

theorem ticket_save_closed_keeps_resolved:
  "status (fst (ticket_save 30 (printer_ticket\<lparr>status := CLOSED_STATUS, resolved := Some 20\<rparr>)
      office_db)) = CLOSED_STATUS
   \<and> resolved (fst (ticket_save 30 (printer_ticket\<lparr>status := CLOSED_STATUS, resolved := Some 20\<rparr>)
      office_db)) = Some 20
   \<and> closed (fst (ticket_save 30 (printer_ticket\<lparr>status := CLOSED_STATUS, resolved := Some 20\<rparr>)
      office_db)) = Some 30"
  by (simp add: ticket_save_status ticket_save_resolved ticket_save_closed status_defs
       printer_ticket_def)


section \<open>Ticket.save: the tickets merged into the saved one\<close>

lemma override_row_overridden: "overridden (override_row t r) = overridden t"
  by (simp add: override_row_def overridden_def)

lemma override_row_keys:
  "tid (override_row t r) = tid r" "merged_to (override_row t r) = merged_to r"
  by (simp_all add: override_row_def)

lemma override_row_same: "overridden r = overridden t \<Longrightarrow> override_row t r = r"
  by (simp add: override_row_def overridden_def)

lemma propagate_merge_idem: "propagate_merge t (propagate_merge t d) = propagate_merge t d"
proof -
  have "(\<lambda>r. if tid t \<noteq> None \<and> merged_to r = tid t then override_row t r else r) \<circ>
        (\<lambda>r. if tid t \<noteq> None \<and> merged_to r = tid t then override_row t r else r)
      = (\<lambda>r. if tid t \<noteq> None \<and> merged_to r = tid t then override_row t r else r)"
    by (rule ext) (simp add: override_row_keys override_row_same override_row_overridden)
  then show ?thesis by (simp add: propagate_merge_def)
qed

lemma propagate_merge_rows:
  "r \<in> set (tickets (propagate_merge t d)) \<Longrightarrow> tid t \<noteq> None \<Longrightarrow> merged_to r = tid t \<Longrightarrow> overridden r = overridden t"
  by (auto simp: propagate_merge_def override_row_overridden override_row_keys split: if_splits)

lemma sync_customer_frame:
  "tid (fst (sync_customer t d)) = tid t"
  "merged_to (fst (sync_customer t d)) = merged_to t"
  "submitter_email (fst (sync_customer t d)) = submitter_email t"
  "assigned_to (fst (sync_customer t d)) = assigned_to t"
  "category (fst (sync_customer t d)) = category t"
  "ticket_type (fst (sync_customer t d)) = ticket_type t"
  "billing (fst (sync_customer t d)) = billing t"
  "site (fst (sync_customer t d)) = site t"
  "customer_product (fst (sync_customer t d)) = customer_product t"
  "tickets (snd (sync_customer t d)) = tickets d"
  by (simp_all add: sync_customer_def Let_def split: option.splits prod.splits)

lemma stamp_dates_frame:
  "tid (stamp_dates nw t) = tid t"
  "merged_to (stamp_dates nw t) = merged_to t"
  "submitter_email (stamp_dates nw t) = submitter_email t"
  "assigned_to (stamp_dates nw t) = assigned_to t"
  "category (stamp_dates nw t) = category t"
  "ticket_type (stamp_dates nw t) = ticket_type t"
  "billing (stamp_dates nw t) = billing t"
  "customer (stamp_dates nw t) = customer t"
  "site (stamp_dates nw t) = site t"
  "customer_product (stamp_dates nw t) = customer_product t"
  by (simp_all add: stamp_dates_def Let_def)


lemma register_submitter_frame:
  "merged_to (fst (register_submitter nw t d)) = merged_to t"
  "submitter_email (fst (register_submitter nw t d)) = submitter_email t"
  "tid (fst (register_submitter nw t d)) = tid t"
  "overridden (fst (register_submitter nw t d)) = overridden t"
  "tickets (snd (register_submitter nw t d)) = tickets d"
  by (simp_all add: register_submitter_def overridden_def split: option.splits)

lemma register_submitter_existing: "tid t \<noteq> None \<Longrightarrow> register_submitter nw t d = (t, d)"
  unfolding register_submitter_def by (simp only: if_False)

lemma write_row_frame:
  "merged_to (fst (write_row t d)) = merged_to t"
  "submitter_email (fst (write_row t d)) = submitter_email t"
  "overridden (fst (write_row t d)) = overridden t"
  "customer (fst (write_row t d)) = customer t"
  "simple_user_mails (snd (write_row t d)) = simple_user_mails d"
  "tid (fst (write_row t d)) \<noteq> None"
  by (simp_all add: write_row_def Let_def overridden_def split: option.splits)

lemma write_row_written: "tid (fst (write_row t d)) \<in> tid ` set (tickets (snd (write_row t d)))"
  by (fastforce simp: write_row_def Let_def image_iff split: option.splits)

lemma write_row_existing:
  "tid t \<noteq> None \<Longrightarrow> \<exists>r \<in> set (tickets d). tid r = tid t \<Longrightarrow>
   write_row t d = (t, d\<lparr>tickets := map (\<lambda>r. if tid r = tid t then t else r) (tickets d)\<rparr>)"
  by (auto simp: write_row_def split: option.splits)

lemma propagate_merge_frame:
  "simple_user_mails (propagate_merge t d) = simple_user_mails d"
  "map tid (tickets (propagate_merge t d)) = map tid (tickets d)"
  by (simp_all add: propagate_merge_def override_row_keys o_def if_distrib cong: if_cong)

lemma sync_customer_settled: "settled (fst (sync_customer t d)) (snd (sync_customer t d))"
  by (auto simp add: sync_customer_def settled_def Let_def split: option.splits prod.splits)

lemma sync_customer_keeps: "settled t d \<Longrightarrow> customer (fst (sync_customer t d)) = customer t"
  by (auto simp add: sync_customer_def settled_def Let_def split: option.splits prod.splits)

lemma settled_cong:
  "customer t' = customer t \<Longrightarrow> submitter_email t' = submitter_email t \<Longrightarrow>
   simple_user_mails d' = simple_user_mails d \<Longrightarrow> settled t' d' = settled t d"
  by (simp only: settled_def)

lemma ticket_save_settled: "settled (fst (ticket_save nw t d)) (snd (ticket_save nw t d))"
  by (simp add: ticket_save_def split_beta Let_def
      settled_cong[OF _ _ _, of _ "fst (sync_customer (stamp_dates nw (fst (register_submitter nw t d))) (snd (register_submitter nw t d)))"
          _ "snd (sync_customer (stamp_dates nw (fst (register_submitter nw t d))) (snd (register_submitter nw t d)))"]
      write_row_frame propagate_merge_frame sync_customer_settled)

lemma ticket_save_tid: "tid (fst (ticket_save nw t d)) \<noteq> None"
  by (simp add: ticket_save_def split_beta Let_def write_row_frame)

lemma ticket_save_written:
  "tid (fst (ticket_save nw t d)) \<in> tid ` set (tickets (snd (ticket_save nw t d)))"
proof -
  let ?t3 = "fst (sync_customer (stamp_dates nw (fst (register_submitter nw t d))) (snd (register_submitter nw t d)))"
  let ?d3 = "snd (sync_customer (stamp_dates nw (fst (register_submitter nw t d))) (snd (register_submitter nw t d)))"
  have eq: "ticket_save nw t d = (fst (write_row ?t3 ?d3), propagate_merge (fst (write_row ?t3 ?d3)) (snd (write_row ?t3 ?d3)))"
    by (simp add: ticket_save_def split_beta Let_def)
  have "tid (fst (write_row ?t3 ?d3)) \<in> set (map tid (tickets (snd (write_row ?t3 ?d3))))"
    using write_row_written[of ?t3 ?d3] by simp
  then have "tid (fst (write_row ?t3 ?d3)) \<in> set (map tid (tickets (propagate_merge (fst (write_row ?t3 ?d3)) (snd (write_row ?t3 ?d3)))))"
    by (simp only: propagate_merge_frame)
  then show ?thesis unfolding eq by simp
qed

lemma ticket_save_merged_rows:
  "r \<in> set (tickets (snd (ticket_save nw t d))) \<Longrightarrow> merged_to r = tid (fst (ticket_save nw t d)) \<Longrightarrow>
   overridden r = overridden (fst (ticket_save nw t d))"
  by (simp add: ticket_save_def split_beta Let_def propagate_merge_rows write_row_frame)


lemma overridden_stamp_dates: "overridden (stamp_dates nw t) = overridden t"
  by (simp add: overridden_def stamp_dates_frame)

lemma overridden_sync_customer:
  "settled t d \<Longrightarrow> overridden (fst (sync_customer t d)) = overridden t"
  by (simp add: overridden_def sync_customer_frame sync_customer_keeps)

lemma ticket_save_again:
  assumes id: "tid t1 \<noteq> None"
    and row: "tid t1 \<in> tid ` set (tickets d1)"
    and st: "settled t1 d1"
    and ov: "\<forall>r \<in> set (tickets d1). merged_to r = tid t1 \<longrightarrow> overridden r = overridden t1"
  shows "tid (fst (ticket_save nw t1 d1)) = tid t1
       \<and> overridden (fst (ticket_save nw t1 d1)) = overridden t1
       \<and> tickets (snd (ticket_save nw t1 d1)) =
           map (\<lambda>r. if tid r = tid t1 then fst (ticket_save nw t1 d1) else r) (tickets d1)"
proof -
  let ?t2 = "stamp_dates nw t1"
  let ?t3 = "fst (sync_customer ?t2 d1)"
  let ?d3 = "snd (sync_customer ?t2 d1)"
  have st2: "settled ?t2 d1"
    using st settled_cong[of ?t2 t1 d1 d1] by (simp add: stamp_dates_frame)
  have tid3: "tid ?t3 = tid t1"
    by (simp add: sync_customer_frame stamp_dates_frame)
  have mt3: "merged_to ?t3 = merged_to t1"
    by (simp add: sync_customer_frame stamp_dates_frame)
  have ov3: "overridden ?t3 = overridden t1"
    using st2 by (simp add: overridden_sync_customer overridden_stamp_dates)
  have rows3: "tickets ?d3 = tickets d1"
    by (simp add: sync_customer_frame)
  have ex: "\<exists>r \<in> set (tickets ?d3). tid r = tid ?t3"
    using row unfolding rows3 tid3 by force
  have wr: "write_row ?t3 ?d3 = (?t3, ?d3\<lparr>tickets := map (\<lambda>r. if tid r = tid ?t3 then ?t3 else r) (tickets ?d3)\<rparr>)"
    using id ex by (intro write_row_existing) (simp_all add: tid3)
  have save: "ticket_save nw t1 d1 =
      (?t3, propagate_merge ?t3 (?d3\<lparr>tickets := map (\<lambda>r. if tid r = tid ?t3 then ?t3 else r) (tickets ?d3)\<rparr>))"
    using id by (simp add: ticket_save_def register_submitter_existing Let_def split_beta wr)
  have rows: "tickets (snd (ticket_save nw t1 d1)) =
      map (\<lambda>r. if tid r = tid t1 then ?t3 else r) (tickets d1)"
  proof -
    have "map ((\<lambda>r. if tid ?t3 \<noteq> None \<and> merged_to r = tid ?t3 then override_row ?t3 r else r)
               \<circ> (\<lambda>r. if tid r = tid ?t3 then ?t3 else r)) (tickets d1)
        = map (\<lambda>r. if tid r = tid t1 then ?t3 else r) (tickets d1)"
    proof (rule map_cong[OF refl])
      fix r assume r: "r \<in> set (tickets d1)"
      show "((\<lambda>r. if tid ?t3 \<noteq> None \<and> merged_to r = tid ?t3 then override_row ?t3 r else r)
               \<circ> (\<lambda>r. if tid r = tid ?t3 then ?t3 else r)) r = (if tid r = tid t1 then ?t3 else r)"
      proof (cases "tid r = tid t1")
        case True
        then show ?thesis by (simp add: tid3 override_row_same)
      next
        case False
        have "merged_to r = tid t1 \<Longrightarrow> override_row ?t3 r = r"
          using ov r ov3 by (simp add: override_row_same)
        with False show ?thesis by (simp add: tid3)
      qed
    qed
    then show ?thesis
      unfolding save by (simp add: propagate_merge_def rows3)
  qed
  show ?thesis
    using rows ov3 tid3 unfolding save by simp
qed


text \<open>
  Claim C7. Every save of a ticket ends with the overriding of the tickets merged into
  it, whatever changed: after a save, each row whose \<open>merged_to\<close> is the saved ticket
  carries the ticket's assignee, category, type, billing, customer, site and product.
  A second save right after the first leaves these values as they are: it rewrites the
  row of the saved ticket only, and the values it writes onto the merged tickets are those
  of the first save. The step alone is idempotent as well.
\<close>

theorem merge_propagation_idempotent:
  "(let (t1, d1) = ticket_save nw1 t d; (t2, d2) = ticket_save nw2 t1 d1 in
      (\<forall>r \<in> set (tickets d1). merged_to r = tid t1 \<longrightarrow> overridden r = overridden t1)
    \<and> overridden t2 = overridden t1
    \<and> tickets d2 = map (\<lambda>r. if tid r = tid t1 then t2 else r) (tickets d1)
    \<and> (\<forall>r \<in> set (tickets d2). merged_to r = tid t1 \<longrightarrow> overridden r = overridden t1))
   \<and> propagate_merge t (propagate_merge t d) = propagate_merge t d"
proof -
  let ?t1 = "fst (ticket_save nw1 t d)" and ?d1 = "snd (ticket_save nw1 t d)"
  let ?t2 = "fst (ticket_save nw2 ?t1 ?d1)" and ?d2 = "snd (ticket_save nw2 ?t1 ?d1)"
  have ov: "\<forall>r \<in> set (tickets ?d1). merged_to r = tid ?t1 \<longrightarrow> overridden r = overridden ?t1"
    using ticket_save_merged_rows by blast
  have again: "tid ?t2 = tid ?t1 \<and> overridden ?t2 = overridden ?t1
     \<and> tickets ?d2 = map (\<lambda>r. if tid r = tid ?t1 then ?t2 else r) (tickets ?d1)"
    by (rule ticket_save_again[OF ticket_save_tid ticket_save_written ticket_save_settled ov])
  have ov2: "\<forall>r \<in> set (tickets ?d2). merged_to r = tid ?t1 \<longrightarrow> overridden r = overridden ?t1"
    using ticket_save_merged_rows[of _ nw2 ?t1 ?d1] again by metis
  show ?thesis
    using ov again ov2 by (simp add: split_beta Let_def propagate_merge_idem)
qed

text \<open>The ticket merged into the printer ticket takes its assignee at the first save and
  keeps its row at the second.\<close>

theorem merge_propagation_idempotent_witness:
  "merged_ticket\<lparr>assigned_to := Some alice\<rparr> \<in> set (tickets (snd (ticket_save 30 printer_ticket office_db)))
   \<and> merged_to (merged_ticket\<lparr>assigned_to := Some alice\<rparr>) = tid (fst (ticket_save 30 printer_ticket office_db))
   \<and> overridden (merged_ticket\<lparr>assigned_to := Some alice\<rparr>) = overridden (fst (ticket_save 30 printer_ticket office_db))
   \<and> tickets (snd (ticket_save 40 (fst (ticket_save 30 printer_ticket office_db))
                    (snd (ticket_save 30 printer_ticket office_db))))
      = [printer_ticket\<lparr>modified := Some 40\<rparr>, merged_ticket\<lparr>assigned_to := Some alice\<rparr>]"
proof -
  let ?t1 = "fst (ticket_save 30 printer_ticket office_db)"
  let ?d1 = "snd (ticket_save 30 printer_ticket office_db)"
  let ?r = "merged_ticket\<lparr>assigned_to := Some alice\<rparr>"
  have all: "\<forall>r \<in> set (tickets ?d1). merged_to r = tid ?t1 \<longrightarrow> overridden r = overridden ?t1"
    using merge_propagation_idempotent[of 30 printer_ticket office_db 40]
    by (simp add: split_beta Let_def)
  have row: "?r \<in> set (tickets ?d1)" by code_simp
  have merged: "merged_to ?r = tid ?t1" by code_simp
  have twice: "tickets (snd (ticket_save 40 ?t1 ?d1)) = [printer_ticket\<lparr>modified := Some 40\<rparr>, ?r]"
    by code_simp
  from all row merged have "overridden ?r = overridden ?t1" by blast
  with row merged twice show ?thesis by blast
qed


section \<open>The update workflow: the no-change test\<close>

lemma get_user_found:
  "\<exists>v \<in> set (users d). uid v = k \<Longrightarrow> \<exists>v. get_user d k = Inr v \<and> uid v = k"
  by (auto simp: get_user_def find_None_iff dest: find_Some_iff[THEN iffD1] split: option.splits)

lemma owner_unchanged_current:
  assumes "valid_assignee t d" and "owner_is_current owner t"
  shows "owner_unchanged owner t d = Inr True"
proof (cases "assigned_to t")
  case None
  with assms show ?thesis
    by (auto simp: owner_unchanged_def owner_is_current_def)
next
  case (Some u)
  with assms have pos: "0 < uid u" and row: "\<exists>v \<in> set (users d). uid v = uid u"
    by (simp_all add: valid_assignee_def)
  from get_user_found[OF row] obtain v where v: "get_user d (uid u) = Inr v" "uid v = uid u"
    by blast
  from assms(2) Some have "owner = - 1 \<or> owner = uid u"
    by (simp add: owner_is_current_def)
  then show ?thesis
  proof
    assume "owner = - 1" then show ?thesis by (simp add: owner_unchanged_def)
  next
    assume "owner = uid u"
    with pos v Some show ?thesis
      by (simp add: owner_unchanged_def and_then_def same_user_def)
  qed
qed

lemma no_changes_current:
  assumes "valid_assignee t d" and "proposes_no_change q files t"
  shows "no_changes q files t d = Inr True"
  using assms(2) owner_unchanged_current[OF assms(1), of "in_owner q"]
  by (simp add: no_changes_def proposes_no_change_def and_then_def)

text \<open>
  Claim C2. A request that may update an existing ticket, with no files and no comment,
  whose proposed status, title, priority, due date, owner, customer, customer contact,
  site and customer product all equal the current values of the ticket, ends at the
  no-change exit: the view answers with the redirect to the ticket and the database is
  the one it started from, so no FollowUp and no TicketChange is created and the ticket
  is unchanged.
\<close>

theorem update_ticket_no_op:
  assumes "may_update ev rq pub"
    and "find (\<lambda>r. tid r = Some i) (tickets d) = Some t"
    and "read_post (req_post rq) t = Inr q"
    and "proposes_no_change q (p_files (req_post rq)) t"
    and "valid_assignee t d"
  shows "update_ticket ev rq i pub d = (No_changes (return_to_ticket (req_user rq) ev), d)"
  using assms(1,2,3) no_changes_current[OF assms(5,4)]
  by (simp add: update_ticket_def may_update_def)

text \<open>Bob posts the title and the owner the printer ticket already has.\<close>

theorem update_ticket_no_op_witness:
  "may_update plain_env \<lparr>req_user = Some bob, req_post = empty_post\<lparr>p_title := ''Printer'', p_owner := Posted 1\<rparr>\<rparr> False
   \<and> find (\<lambda>r. tid r = Some 1) (tickets office_db) = Some printer_ticket
   \<and> proposes_no_change
        \<lparr>in_comment = [], in_new_status = 1, in_title = ''Printer'', in_public = False, in_owner = 1,
          in_priority = 3, in_due_date = None, in_customer_contact = None, in_customer = None,
          in_site = None, in_customer_product = None\<rparr> [] printer_ticket
   \<and> valid_assignee printer_ticket office_db
   \<and> update_ticket plain_env \<lparr>req_user = Some bob, req_post = empty_post\<lparr>p_title := ''Printer'', p_owner := Posted 1\<rparr>\<rparr>
        1 False office_db = (No_changes Redirect_staff_view, office_db)"
proof -
  let ?rq = "\<lparr>req_user = Some bob, req_post = empty_post\<lparr>p_title := ''Printer'', p_owner := Posted 1\<rparr>\<rparr>"
  let ?q = "\<lparr>in_comment = [], in_new_status = 1, in_title = ''Printer'', in_public = False, in_owner = 1,
          in_priority = 3, in_due_date = None, in_customer_contact = None, in_customer = None,
          in_site = None, in_customer_product = None\<rparr>"
  have a: "may_update plain_env ?rq False" by code_simp
  have b: "find (\<lambda>r. tid r = Some 1) (tickets office_db) = Some printer_ticket" by code_simp
  have c: "read_post (req_post ?rq) printer_ticket = Inr ?q" by code_simp
  have d: "proposes_no_change ?q (p_files (req_post ?rq)) printer_ticket" by code_simp
  have e: "valid_assignee printer_ticket office_db" by code_simp
  have r: "return_to_ticket (req_user ?rq) plain_env = Redirect_staff_view" by code_simp
  have f: "p_files (req_post ?rq) = []" by code_simp
  from update_ticket_no_op[OF a b c d e] r d f a b e show ?thesis by simp
qed


section \<open>What a save leaves as it is\<close>

lemma register_submitter_fields:
  "title (fst (register_submitter nw t d)) = title t"
  "queue (fst (register_submitter nw t d)) = queue t"
  "submitter_email (fst (register_submitter nw t d)) = submitter_email t"
  "assigned_to (fst (register_submitter nw t d)) = assigned_to t"
  "status (fst (register_submitter nw t d)) = status t"
  "category (fst (register_submitter nw t d)) = category t"
  "ticket_type (fst (register_submitter nw t d)) = ticket_type t"
  "billing (fst (register_submitter nw t d)) = billing t"
  "resolution (fst (register_submitter nw t d)) = resolution t"
  "due_date (fst (register_submitter nw t d)) = due_date t"
  "customer_contact (fst (register_submitter nw t d)) = customer_contact t"
  "site (fst (register_submitter nw t d)) = site t"
  "customer_product (fst (register_submitter nw t d)) = customer_product t"
  "time_before_first_answer (fst (register_submitter nw t d)) = time_before_first_answer t"
  "merged_to (fst (register_submitter nw t d)) = merged_to t"
  "customer (fst (register_submitter nw t d)) = customer t"
  "priority (fst (register_submitter nw t d)) = priority t"
  by (simp_all add: register_submitter_def)

lemma register_submitter_tables:
  "users (snd (register_submitter nw t d)) = users d"
  "customers (snd (register_submitter nw t d)) = customers d"
  "sites (snd (register_submitter nw t d)) = sites d"
  "customer_products (snd (register_submitter nw t d)) = customer_products d"
  "ticket_types (snd (register_submitter nw t d)) = ticket_types d"
  "followups (snd (register_submitter nw t d)) = followups d"
  "next_followup_id (snd (register_submitter nw t d)) = next_followup_id d"
  "ticket_changes (snd (register_submitter nw t d)) = ticket_changes d"
  "ticket_ccs (snd (register_submitter nw t d)) = ticket_ccs d"
  "outbox (snd (register_submitter nw t d)) = outbox d"
  "tickets (snd (register_submitter nw t d)) = tickets d"
  "next_ticket_id (snd (register_submitter nw t d)) = next_ticket_id d"
  by (simp_all add: register_submitter_def split: option.splits)

lemma stamp_dates_fields:
  "title (stamp_dates nw t) = title t"
  "queue (stamp_dates nw t) = queue t"
  "submitter_email (stamp_dates nw t) = submitter_email t"
  "assigned_to (stamp_dates nw t) = assigned_to t"
  "status (stamp_dates nw t) = status t"
  "category (stamp_dates nw t) = category t"
  "ticket_type (stamp_dates nw t) = ticket_type t"
  "billing (stamp_dates nw t) = billing t"
  "resolution (stamp_dates nw t) = resolution t"
  "due_date (stamp_dates nw t) = due_date t"
  "customer_contact (stamp_dates nw t) = customer_contact t"
  "site (stamp_dates nw t) = site t"
  "customer_product (stamp_dates nw t) = customer_product t"
  "time_before_first_answer (stamp_dates nw t) = time_before_first_answer t"
  "merged_to (stamp_dates nw t) = merged_to t"
  "customer (stamp_dates nw t) = customer t"
  "tid (stamp_dates nw t) = tid t"
  by (simp_all add: stamp_dates_def Let_def)

lemma sync_customer_fields:
  "title (fst (sync_customer t d)) = title t"
  "queue (fst (sync_customer t d)) = queue t"
  "submitter_email (fst (sync_customer t d)) = submitter_email t"
  "assigned_to (fst (sync_customer t d)) = assigned_to t"
  "status (fst (sync_customer t d)) = status t"
  "category (fst (sync_customer t d)) = category t"
  "ticket_type (fst (sync_customer t d)) = ticket_type t"
  "billing (fst (sync_customer t d)) = billing t"
  "resolution (fst (sync_customer t d)) = resolution t"
  "due_date (fst (sync_customer t d)) = due_date t"
  "customer_contact (fst (sync_customer t d)) = customer_contact t"
  "site (fst (sync_customer t d)) = site t"
  "customer_product (fst (sync_customer t d)) = customer_product t"
  "time_before_first_answer (fst (sync_customer t d)) = time_before_first_answer t"
  "merged_to (fst (sync_customer t d)) = merged_to t"
  "priority (fst (sync_customer t d)) = priority t"
  "tid (fst (sync_customer t d)) = tid t"
  by (simp_all add: sync_customer_def Let_def split: option.splits prod.splits)

lemma sync_customer_tables:
  "users (snd (sync_customer t d)) = users d"
  "customers (snd (sync_customer t d)) = customers d"
  "sites (snd (sync_customer t d)) = sites d"
  "customer_products (snd (sync_customer t d)) = customer_products d"
  "ticket_types (snd (sync_customer t d)) = ticket_types d"
  "followups (snd (sync_customer t d)) = followups d"
  "next_followup_id (snd (sync_customer t d)) = next_followup_id d"
  "ticket_changes (snd (sync_customer t d)) = ticket_changes d"
  "ticket_ccs (snd (sync_customer t d)) = ticket_ccs d"
  "outbox (snd (sync_customer t d)) = outbox d"
  "tickets (snd (sync_customer t d)) = tickets d"
  "next_ticket_id (snd (sync_customer t d)) = next_ticket_id d"
  by (simp_all add: sync_customer_def Let_def split: option.splits prod.splits)

lemma write_row_fields:
  "title (fst (write_row t d)) = title t"
  "queue (fst (write_row t d)) = queue t"
  "submitter_email (fst (write_row t d)) = submitter_email t"
  "assigned_to (fst (write_row t d)) = assigned_to t"
  "status (fst (write_row t d)) = status t"
  "category (fst (write_row t d)) = category t"
  "ticket_type (fst (write_row t d)) = ticket_type t"
  "billing (fst (write_row t d)) = billing t"
  "resolution (fst (write_row t d)) = resolution t"
  "due_date (fst (write_row t d)) = due_date t"
  "customer_contact (fst (write_row t d)) = customer_contact t"
  "site (fst (write_row t d)) = site t"
  "customer_product (fst (write_row t d)) = customer_product t"
  "time_before_first_answer (fst (write_row t d)) = time_before_first_answer t"
  "merged_to (fst (write_row t d)) = merged_to t"
  "customer (fst (write_row t d)) = customer t"
  "priority (fst (write_row t d)) = priority t"
  by (simp_all add: write_row_def Let_def split: option.splits)

lemma write_row_tables:
  "users (snd (write_row t d)) = users d"
  "customers (snd (write_row t d)) = customers d"
  "sites (snd (write_row t d)) = sites d"
  "customer_products (snd (write_row t d)) = customer_products d"
  "ticket_types (snd (write_row t d)) = ticket_types d"
  "followups (snd (write_row t d)) = followups d"
  "next_followup_id (snd (write_row t d)) = next_followup_id d"
  "ticket_changes (snd (write_row t d)) = ticket_changes d"
  "ticket_ccs (snd (write_row t d)) = ticket_ccs d"
  "outbox (snd (write_row t d)) = outbox d"
  "simple_user_mails (snd (write_row t d)) = simple_user_mails d"
  by (simp_all add: write_row_def Let_def split: option.splits)

lemma propagate_merge_tables:
  "users (propagate_merge t d) = users d"
  "customers (propagate_merge t d) = customers d"
  "sites (propagate_merge t d) = sites d"
  "customer_products (propagate_merge t d) = customer_products d"
  "ticket_types (propagate_merge t d) = ticket_types d"
  "followups (propagate_merge t d) = followups d"
  "next_followup_id (propagate_merge t d) = next_followup_id d"
  "ticket_changes (propagate_merge t d) = ticket_changes d"
  "ticket_ccs (propagate_merge t d) = ticket_ccs d"
  "outbox (propagate_merge t d) = outbox d"
  "simple_user_mails (propagate_merge t d) = simple_user_mails d"
  "next_ticket_id (propagate_merge t d) = next_ticket_id d"
  by (simp_all add: propagate_merge_def)

lemma stamp_dates_priority: "priority (stamp_dates nw t) = (if priority t = 0 then 3 else priority t)"
  by (simp add: stamp_dates_def Let_def)

lemma write_row_tid: "tid t \<noteq> None \<Longrightarrow> tid (fst (write_row t d)) = tid t"
  by (auto simp: write_row_def)

lemma ticket_save_fields:
  "title (fst (ticket_save nw t d)) = title t"
  "queue (fst (ticket_save nw t d)) = queue t"
  "submitter_email (fst (ticket_save nw t d)) = submitter_email t"
  "assigned_to (fst (ticket_save nw t d)) = assigned_to t"
  "status (fst (ticket_save nw t d)) = status t"
  "category (fst (ticket_save nw t d)) = category t"
  "ticket_type (fst (ticket_save nw t d)) = ticket_type t"
  "billing (fst (ticket_save nw t d)) = billing t"
  "resolution (fst (ticket_save nw t d)) = resolution t"
  "due_date (fst (ticket_save nw t d)) = due_date t"
  "customer_contact (fst (ticket_save nw t d)) = customer_contact t"
  "site (fst (ticket_save nw t d)) = site t"
  "customer_product (fst (ticket_save nw t d)) = customer_product t"
  "time_before_first_answer (fst (ticket_save nw t d)) = time_before_first_answer t"
  "merged_to (fst (ticket_save nw t d)) = merged_to t"
  by (simp_all add: ticket_save_def Let_def split_beta write_row_fields sync_customer_fields
      stamp_dates_fields register_submitter_fields)

lemma ticket_save_tables:
  "users (snd (ticket_save nw t d)) = users d"
  "customers (snd (ticket_save nw t d)) = customers d"
  "sites (snd (ticket_save nw t d)) = sites d"
  "customer_products (snd (ticket_save nw t d)) = customer_products d"
  "ticket_types (snd (ticket_save nw t d)) = ticket_types d"
  "followups (snd (ticket_save nw t d)) = followups d"
  "next_followup_id (snd (ticket_save nw t d)) = next_followup_id d"
  "ticket_changes (snd (ticket_save nw t d)) = ticket_changes d"
  "ticket_ccs (snd (ticket_save nw t d)) = ticket_ccs d"
  "outbox (snd (ticket_save nw t d)) = outbox d"
  by (simp_all add: ticket_save_def Let_def split_beta propagate_merge_tables write_row_tables
      sync_customer_tables register_submitter_tables)

lemma ticket_save_priority:
  "priority (fst (ticket_save nw t d)) = (if priority t = 0 then 3 else priority t)"
  by (simp add: ticket_save_def Let_def split_beta write_row_fields sync_customer_fields
      stamp_dates_priority register_submitter_fields)

lemma ticket_save_keeps_tid: "tid t \<noteq> None \<Longrightarrow> tid (fst (ticket_save nw t d)) = tid t"
  by (simp add: ticket_save_def Let_def split_beta write_row_tid sync_customer_fields
      stamp_dates_fields register_submitter_existing)

lemma ticket_save_customer: "settled t d \<Longrightarrow> customer (fst (ticket_save nw t d)) = customer t"
proof -
  assume st: "settled t d"
  have "settled (stamp_dates nw (fst (register_submitter nw t d))) (snd (register_submitter nw t d))"
  proof (cases "tid t = None")
    case False
    then show ?thesis
      using st settled_cong[of "stamp_dates nw t" t d d]
      by (simp add: register_submitter_existing stamp_dates_fields)
  next
    case True
    have "settled (stamp_dates nw (fst (register_submitter nw t d))) (snd (register_submitter nw t d))
          = settled t (snd (register_submitter nw t d))"
      by (rule settled_cong) (simp_all add: stamp_dates_fields register_submitter_fields)
    moreover have "settled t (snd (register_submitter nw t d))"
      using st by (auto simp: settled_def register_submitter_def split: option.splits)
    ultimately show ?thesis by simp
  qed
  then show ?thesis
    by (simp add: ticket_save_def Let_def split_beta write_row_fields sync_customer_keeps
        stamp_dates_fields register_submitter_fields)
qed


section \<open>The update workflow: the status and the follow-up\<close>

lemma settled_status: "settled (t\<lparr>status := s\<rparr>) d = settled t d"
  by (rule settled_cong) simp_all


lemma ticket_save_kept: "kept (fst (ticket_save nw t d)) t"
  by (simp add: kept_def ticket_save_fields)

lemma ticket_save_same_tables: "same_tables (snd (ticket_save nw t d)) d"
  by (simp add: same_tables_def ticket_save_tables)

lemma change_status_ticket:
  "kept (fst (snd (change_status nw s f t d))) t"
  "status (fst (snd (change_status nw s f t d))) = s"
  "tid t \<noteq> None \<Longrightarrow> tid (fst (snd (change_status nw s f t d))) = tid t"
  "settled t d \<Longrightarrow> customer (fst (snd (change_status nw s f t d))) = customer t"
  "settled t d \<Longrightarrow> settled (fst (snd (change_status nw s f t d))) (snd (snd (change_status nw s f t d)))"
  "priority (fst (snd (change_status nw s f t d))) =
     (if s \<noteq> status t then (if priority t = 0 then 3 else priority t) else priority t)"
  "same_tables (snd (snd (change_status nw s f t d))) d"
  "followups (snd (snd (change_status nw s f t d))) = followups d"
  "next_followup_id (snd (snd (change_status nw s f t d))) = next_followup_id d"
  by (simp_all add: change_status_def split_beta Let_def kept_def same_tables_def ticket_save_fields
      ticket_save_tables ticket_save_keeps_tid ticket_save_customer settled_status ticket_save_settled
      ticket_save_priority)

lemma change_status_followup:
  "f_new_status (fst (change_status nw s f t d)) = (if s \<noteq> status t then Some s else f_new_status f)"
  "f_title (fst (change_status nw s f t d)) =
     (if s \<noteq> status t
      then Some (if truthy (f_title f) then the_default [] (f_title f) @ '' and '' @ get_status_display s
                 else get_status_display s)
      else f_title f)"
  "f_comment (fst (change_status nw s f t d)) = f_comment f"
  "f_public (fst (change_status nw s f t d)) = f_public f"
  "f_user (fst (change_status nw s f t d)) = f_user f"
  "f_id (fst (change_status nw s f t d)) = f_id f"
  "f_date (fst (change_status nw s f t d)) = f_date f"
  by (simp_all add: change_status_def split_beta Let_def ticket_save_fields)

lemma default_title_fields:
  "f_new_status (default_title f) = f_new_status f"
  "f_comment (default_title f) = f_comment f"
  "f_public (default_title f) = f_public f"
  "f_user (default_title f) = f_user f"
  "f_id (default_title f) = f_id f"
  "f_date (default_title f) = f_date f"
  "f_title (default_title f) =
     (if truthy (f_title f) then f_title f
      else if f_comment f \<noteq> [] then Some ''Comment'' else Some ''Updated'')"
  by (simp_all add: default_title_def)

lemma followup_save_ticket:
  "kept (fst (snd (followup_save ev f t d))) t"
  "status (fst (snd (followup_save ev f t d))) = status t"
  "priority (fst (snd (followup_save ev f t d))) = (if priority t = 0 then 3 else priority t)"
  "same_tables (snd (snd (followup_save ev f t d))) d"
  by (simp_all add: followup_save_def split_beta Let_def kept_def same_tables_def ticket_save_fields
      ticket_save_tables ticket_save_priority split: option.splits)

lemma followup_save_tid:
  "tid t \<noteq> None \<Longrightarrow> tid (fst (snd (followup_save ev f t d))) = tid t"
  by (simp add: followup_save_def split_beta Let_def ticket_save_keeps_tid split: option.splits)


lemma followup_save_followup:
  "f_id f = None \<Longrightarrow> f_id (fst (followup_save ev f t d)) = Some (next_followup_id d)"
  "f_new_status (fst (followup_save ev f t d)) = f_new_status f"
  "f_title (fst (followup_save ev f t d)) = f_title f"
  "f_comment (fst (followup_save ev f t d)) = f_comment f"
  "f_public (fst (followup_save ev f t d)) = f_public f"
  "f_user (fst (followup_save ev f t d)) = f_user f"
  by (simp_all add: followup_save_def split_beta Let_def ticket_save_tables split: option.splits)


lemma kept_trans: "kept a b \<Longrightarrow> kept b c \<Longrightarrow> kept a c"
  by (simp add: kept_def)

lemma same_tables_trans: "same_tables a b \<Longrightarrow> same_tables b c \<Longrightarrow> same_tables a c"
  by (simp add: same_tables_def)

lemma begin_update_ticket:
  "kept (fst (snd (begin_update ev q f t d))) t"
  "status (fst (snd (begin_update ev q f t d))) = in_new_status q"
  "priority (fst (snd (begin_update ev q f t d))) = (if priority t = 0 then 3 else priority t)"
  "same_tables (snd (snd (begin_update ev q f t d))) d"
  by (auto simp add: begin_update_def split_beta Let_def followup_save_ticket change_status_ticket
      intro: kept_trans[OF followup_save_ticket(1) change_status_ticket(1)]
         same_tables_trans[OF followup_save_ticket(4) change_status_ticket(7)])

lemma begin_update_tid:
  "tid t \<noteq> None \<Longrightarrow> tid (fst (snd (begin_update ev q f t d))) = tid t"
  by (simp add: begin_update_def split_beta Let_def followup_save_tid change_status_ticket)


lemma digits_nonempty: "digits n \<noteq> []"
  by (subst digits.simps) simp

lemma get_status_display_nonempty: "get_status_display s \<noteq> []"
  by (simp add: get_status_display_def str_int_def digits_nonempty)

lemma begin_update_followup:
  "f_id f = None \<Longrightarrow> f_id (fst (begin_update ev q f t d)) = Some (next_followup_id d)"
  "f_new_status (fst (begin_update ev q f t d)) =
     (if in_new_status q \<noteq> status t then Some (in_new_status q) else f_new_status f)"
  "f_comment (fst (begin_update ev q f t d)) = f_comment f"
  "f_public (fst (begin_update ev q f t d)) = f_public f"
  "f_user (fst (begin_update ev q f t d)) = f_user f"
  "f_title f = None \<Longrightarrow> f_title (fst (begin_update ev q f t d)) =
     Some (if in_new_status q \<noteq> status t then get_status_display (in_new_status q)
           else if f_comment f \<noteq> [] then ''Comment'' else ''Updated'')"
  by (simp_all add: begin_update_def split_beta Let_def followup_save_followup default_title_fields
      change_status_followup change_status_ticket truthy_def get_status_display_nonempty)


section \<open>The update workflow: the change log\<close>

lemma log_title_rows:
  "fst (log_title f ttl t) = (if ttl \<noteq> [] \<and> ttl \<noteq> title t then [change_row f ''Title'' (title t) ttl] else [])"
  by (simp add: log_title_def Let_def shown_def)

lemma log_title_keeps:
  "queue (snd (log_title f ttl t)) = queue t"
  "submitter_email (snd (log_title f ttl t)) = submitter_email t"
  "assigned_to (snd (log_title f ttl t)) = assigned_to t"
  "status (snd (log_title f ttl t)) = status t"
  "due_date (snd (log_title f ttl t)) = due_date t"
  "customer_contact (snd (log_title f ttl t)) = customer_contact t"
  "customer (snd (log_title f ttl t)) = customer t"
  "site (snd (log_title f ttl t)) = site t"
  "customer_product (snd (log_title f ttl t)) = customer_product t"
  "resolution (snd (log_title f ttl t)) = resolution t"
  "priority (snd (log_title f ttl t)) = priority t"
  "tid (snd (log_title f ttl t)) = tid t"
  by (simp_all add: log_title_def Let_def)

lemma log_status_rows:
  "fst (log_status f ns os oss t) = (if ns \<noteq> os then [change_row f ''Status'' oss (get_status_display (status t))] else [])"
  by (simp add: log_status_def Let_def shown_def)

lemma log_status_keeps:
  "title (snd (log_status f ns os oss t)) = title t"
  "queue (snd (log_status f ns os oss t)) = queue t"
  "submitter_email (snd (log_status f ns os oss t)) = submitter_email t"
  "assigned_to (snd (log_status f ns os oss t)) = assigned_to t"
  "status (snd (log_status f ns os oss t)) = status t"
  "due_date (snd (log_status f ns os oss t)) = due_date t"
  "customer_contact (snd (log_status f ns os oss t)) = customer_contact t"
  "customer (snd (log_status f ns os oss t)) = customer t"
  "site (snd (log_status f ns os oss t)) = site t"
  "customer_product (snd (log_status f ns os oss t)) = customer_product t"
  "resolution (snd (log_status f ns os oss t)) = resolution t"
  "priority (snd (log_status f ns os oss t)) = priority t"
  "tid (snd (log_status f ns os oss t)) = tid t"
  by (simp_all add: log_status_def Let_def)

lemma log_owner_rows:
  "fst (log_owner f oo t) = (if \<not> same_user (assigned_to t) oo then [change_row f ''Owner'' (shown user_str oo) (shown user_str (assigned_to t))] else [])"
  by (simp add: log_owner_def Let_def shown_def)

lemma log_owner_keeps:
  "title (snd (log_owner f oo t)) = title t"
  "queue (snd (log_owner f oo t)) = queue t"
  "submitter_email (snd (log_owner f oo t)) = submitter_email t"
  "assigned_to (snd (log_owner f oo t)) = assigned_to t"
  "status (snd (log_owner f oo t)) = status t"
  "due_date (snd (log_owner f oo t)) = due_date t"
  "customer_contact (snd (log_owner f oo t)) = customer_contact t"
  "customer (snd (log_owner f oo t)) = customer t"
  "site (snd (log_owner f oo t)) = site t"
  "customer_product (snd (log_owner f oo t)) = customer_product t"
  "resolution (snd (log_owner f oo t)) = resolution t"
  "priority (snd (log_owner f oo t)) = priority t"
  "tid (snd (log_owner f oo t)) = tid t"
  by (simp_all add: log_owner_def Let_def)

lemma log_priority_rows:
  "fst (log_priority f prio t) = (if prio \<noteq> priority t then [change_row f ''Priority'' (str_int (priority t)) (str_int prio)] else [])"
  by (simp add: log_priority_def Let_def shown_def)

lemma log_priority_keeps:
  "title (snd (log_priority f prio t)) = title t"
  "queue (snd (log_priority f prio t)) = queue t"
  "submitter_email (snd (log_priority f prio t)) = submitter_email t"
  "assigned_to (snd (log_priority f prio t)) = assigned_to t"
  "status (snd (log_priority f prio t)) = status t"
  "due_date (snd (log_priority f prio t)) = due_date t"
  "customer_contact (snd (log_priority f prio t)) = customer_contact t"
  "customer (snd (log_priority f prio t)) = customer t"
  "site (snd (log_priority f prio t)) = site t"
  "customer_product (snd (log_priority f prio t)) = customer_product t"
  "resolution (snd (log_priority f prio t)) = resolution t"
  "tid (snd (log_priority f prio t)) = tid t"
  by (simp_all add: log_priority_def Let_def)

lemma log_due_date_rows:
  "fst (log_due_date ev f due t) = (if due \<noteq> due_date t then [change_row f ''Due on'' (case due_date t of Some x \<Rightarrow> format_date ev x | None \<Rightarrow> non_definie) (case due of Some x \<Rightarrow> format_date ev x | None \<Rightarrow> non_definie)] else [])"
  by (simp add: log_due_date_def Let_def shown_def)

lemma log_due_date_keeps:
  "title (snd (log_due_date ev f due t)) = title t"
  "queue (snd (log_due_date ev f due t)) = queue t"
  "submitter_email (snd (log_due_date ev f due t)) = submitter_email t"
  "assigned_to (snd (log_due_date ev f due t)) = assigned_to t"
  "status (snd (log_due_date ev f due t)) = status t"
  "customer_contact (snd (log_due_date ev f due t)) = customer_contact t"
  "customer (snd (log_due_date ev f due t)) = customer t"
  "site (snd (log_due_date ev f due t)) = site t"
  "customer_product (snd (log_due_date ev f due t)) = customer_product t"
  "resolution (snd (log_due_date ev f due t)) = resolution t"
  "priority (snd (log_due_date ev f due t)) = priority t"
  "tid (snd (log_due_date ev f due t)) = tid t"
  by (simp_all add: log_due_date_def Let_def)

lemma log_customer_contact_rows:
  "fst (log_customer_contact f i d t) = (if i \<noteq> map_option uid (customer_contact t) then [change_row f ''Contact client'' (shown user_str (customer_contact t)) (shown user_str (lookup uid (users d) i))] else [])"
  by (simp add: log_customer_contact_def Let_def shown_def)

lemma log_customer_contact_keeps:
  "title (snd (log_customer_contact f i d t)) = title t"
  "queue (snd (log_customer_contact f i d t)) = queue t"
  "submitter_email (snd (log_customer_contact f i d t)) = submitter_email t"
  "assigned_to (snd (log_customer_contact f i d t)) = assigned_to t"
  "status (snd (log_customer_contact f i d t)) = status t"
  "due_date (snd (log_customer_contact f i d t)) = due_date t"
  "customer (snd (log_customer_contact f i d t)) = customer t"
  "site (snd (log_customer_contact f i d t)) = site t"
  "customer_product (snd (log_customer_contact f i d t)) = customer_product t"
  "resolution (snd (log_customer_contact f i d t)) = resolution t"
  "priority (snd (log_customer_contact f i d t)) = priority t"
  "tid (snd (log_customer_contact f i d t)) = tid t"
  by (simp_all add: log_customer_contact_def Let_def)

lemma log_customer_rows:
  "fst (log_customer f i d t) = (if i \<noteq> map_option cid (customer t) then [change_row f ''Client'' (shown customer_str (customer t)) (shown customer_str (lookup cid (customers d) i))] else [])"
  by (simp add: log_customer_def Let_def shown_def)

lemma log_customer_keeps:
  "title (snd (log_customer f i d t)) = title t"
  "queue (snd (log_customer f i d t)) = queue t"
  "submitter_email (snd (log_customer f i d t)) = submitter_email t"
  "assigned_to (snd (log_customer f i d t)) = assigned_to t"
  "status (snd (log_customer f i d t)) = status t"
  "due_date (snd (log_customer f i d t)) = due_date t"
  "customer_contact (snd (log_customer f i d t)) = customer_contact t"
  "site (snd (log_customer f i d t)) = site t"
  "customer_product (snd (log_customer f i d t)) = customer_product t"
  "resolution (snd (log_customer f i d t)) = resolution t"
  "priority (snd (log_customer f i d t)) = priority t"
  "tid (snd (log_customer f i d t)) = tid t"
  by (simp_all add: log_customer_def Let_def)

lemma log_site_rows:
  "fst (log_site f i d t) = (if i \<noteq> map_option sid (site t) then [change_row f ''Site'' (shown site_str (site t)) (shown site_str (lookup sid (sites d) i))] else [])"
  by (simp add: log_site_def Let_def shown_def)

lemma log_site_keeps:
  "title (snd (log_site f i d t)) = title t"
  "queue (snd (log_site f i d t)) = queue t"
  "submitter_email (snd (log_site f i d t)) = submitter_email t"
  "assigned_to (snd (log_site f i d t)) = assigned_to t"
  "status (snd (log_site f i d t)) = status t"
  "due_date (snd (log_site f i d t)) = due_date t"
  "customer_contact (snd (log_site f i d t)) = customer_contact t"
  "customer (snd (log_site f i d t)) = customer t"
  "customer_product (snd (log_site f i d t)) = customer_product t"
  "resolution (snd (log_site f i d t)) = resolution t"
  "priority (snd (log_site f i d t)) = priority t"
  "tid (snd (log_site f i d t)) = tid t"
  by (simp_all add: log_site_def Let_def)

lemma log_customer_product_rows:
  "fst (log_customer_product f i d t) = (if i \<noteq> map_option pid (customer_product t) then [change_row f ''Produit client'' (shown product_str (customer_product t)) (shown product_str (lookup pid (customer_products d) i))] else [])"
  by (simp add: log_customer_product_def Let_def shown_def)

lemma log_customer_product_keeps:
  "title (snd (log_customer_product f i d t)) = title t"
  "queue (snd (log_customer_product f i d t)) = queue t"
  "submitter_email (snd (log_customer_product f i d t)) = submitter_email t"
  "assigned_to (snd (log_customer_product f i d t)) = assigned_to t"
  "status (snd (log_customer_product f i d t)) = status t"
  "due_date (snd (log_customer_product f i d t)) = due_date t"
  "customer_contact (snd (log_customer_product f i d t)) = customer_contact t"
  "customer (snd (log_customer_product f i d t)) = customer t"
  "site (snd (log_customer_product f i d t)) = site t"
  "resolution (snd (log_customer_product f i d t)) = resolution t"
  "priority (snd (log_customer_product f i d t)) = priority t"
  "tid (snd (log_customer_product f i d t)) = tid t"
  by (simp_all add: log_customer_product_def Let_def)

lemmas log_keeps = log_title_keeps log_status_keeps log_owner_keeps log_priority_keeps
  log_due_date_keeps log_customer_contact_keeps log_customer_keeps log_site_keeps
  log_customer_product_keeps

lemmas log_rows = log_title_rows log_status_rows log_owner_rows log_priority_rows
  log_due_date_rows log_customer_contact_rows log_customer_rows log_site_rows
  log_customer_product_rows

lemma log_changes_rows:
  "fst (log_changes ev q f os oss oo d t) =
     (if in_title q \<noteq> [] \<and> in_title q \<noteq> title t then [change_row f ''Title'' (title t) (in_title q)] else [])
   @ (if in_new_status q \<noteq> os then [change_row f ''Status'' oss (get_status_display (status t))] else [])
   @ (if \<not> same_user (assigned_to t) oo then [change_row f ''Owner'' (shown user_str oo) (shown user_str (assigned_to t))] else [])
   @ (if in_priority q \<noteq> priority t then [change_row f ''Priority'' (str_int (priority t)) (str_int (in_priority q))] else [])
   @ (if in_due_date q \<noteq> due_date t then [change_row f ''Due on'' (case due_date t of Some x \<Rightarrow> format_date ev x | None \<Rightarrow> non_definie) (case in_due_date q of Some x \<Rightarrow> format_date ev x | None \<Rightarrow> non_definie)] else [])
   @ (if in_customer_contact q \<noteq> map_option uid (customer_contact t) then [change_row f ''Contact client'' (shown user_str (customer_contact t)) (shown user_str (lookup uid (users d) (in_customer_contact q)))] else [])
   @ (if in_customer q \<noteq> map_option cid (customer t) then [change_row f ''Client'' (shown customer_str (customer t)) (shown customer_str (lookup cid (customers d) (in_customer q)))] else [])
   @ (if in_site q \<noteq> map_option sid (site t) then [change_row f ''Site'' (shown site_str (site t)) (shown site_str (lookup sid (sites d) (in_site q)))] else [])
   @ (if in_customer_product q \<noteq> map_option pid (customer_product t) then [change_row f ''Produit client'' (shown product_str (customer_product t)) (shown product_str (lookup pid (customer_products d) (in_customer_product q)))] else [])"
  unfolding log_changes_def split_beta Let_def fst_conv
  by (simp only: log_rows log_keeps)

lemma log_changes_keeps:
  "assigned_to (snd (log_changes ev q f os oss oo d t)) = assigned_to t"
  "status (snd (log_changes ev q f os oss oo d t)) = status t"
  "tid (snd (log_changes ev q f os oss oo d t)) = tid t"
  "queue (snd (log_changes ev q f os oss oo d t)) = queue t"
  "submitter_email (snd (log_changes ev q f os oss oo d t)) = submitter_email t"
  unfolding log_changes_def split_beta Let_def snd_conv
  by (simp_all only: log_keeps)


section \<open>The update workflow: the view\<close>

lemma set_resolution_keeps:
  "assigned_to (set_resolution s c t) = assigned_to t"
  "tid (set_resolution s c t) = tid t"
  "queue (set_resolution s c t) = queue t"
  "submitter_email (set_resolution s c t) = submitter_email t"
  "status (set_resolution s c t) = status t"
  by (simp_all add: set_resolution_def)

lemma subscribe_acting_user_tables:
  "ticket_changes (subscribe_acting_user ev u t d) = ticket_changes d"
  "outbox (subscribe_acting_user ev u t d) = outbox d"
  "followups (subscribe_acting_user ev u t d) = followups d"
  "tickets (subscribe_acting_user ev u t d) = tickets d"
  by (simp_all add: subscribe_acting_user_def subscribe_staff_member_to_ticket_def
      split: option.splits)

lemma finish_update_trace:
  assumes "finish_update ev rq q comment re os oss oo f t3 d3 = (out, d')"
  shows "\<exists>tr. out = Updated tr (return_to_ticket (req_user rq) ev)
     \<and> tr_followup tr = f \<and> tr_reassigned tr = re
     \<and> tr_changes tr = fst (log_changes ev q f os oss oo d3 t3)
     \<and> tr_mails tr = fan_out (in_public q) (req_user rq) re f
          (set_resolution (in_new_status q) comment (snd (log_changes ev q f os oss oo d3 t3)))
          (filter (\<lambda>c. cc_ticket c = tid (set_resolution (in_new_status q) comment (snd (log_changes ev q f os oss oo d3 t3))))
             (ticket_ccs d3))
     \<and> assigned_to (tr_ticket tr) = assigned_to t3
     \<and> ticket_changes d' = ticket_changes d3 @ tr_changes tr
     \<and> outbox d' = outbox d3 @ tr_mails tr
     \<and> followups d' = followups d3"
  using assms
  by (auto simp: finish_update_def split_beta Let_def subscribe_acting_user_tables
      ticket_save_tables ticket_save_fields set_resolution_keeps log_changes_keeps)

lemma update_ticket_Updated:
  assumes "update_ticket ev rq i pub d = (Updated tr resp, d')"
  shows "\<exists>t q comment f0 t1 ttl re.
      find (\<lambda>r. tid r = Some i) (tickets d) = Some t
    \<and> read_post (req_post rq) t = Inr q
    \<and> render ev t (neutralise_comment (in_comment q)) = Inr comment
    \<and> new_followup ev (req_user rq) (in_public q) comment t = Inr f0
    \<and> assign_owner (effective_owner (in_owner q) t) t d = Inr (t1, ttl, re)
    \<and> finish_update ev rq q comment re (status t1) (get_status_display (status t1)) (assigned_to t)
         (fst (begin_update ev q (f0\<lparr>f_title := ttl\<rparr>) t1 d))
         (fst (snd (begin_update ev q (f0\<lparr>f_title := ttl\<rparr>) t1 d)))
         (snd (snd (begin_update ev q (f0\<lparr>f_title := ttl\<rparr>) t1 d))) = (Updated tr resp, d')"
  using assms
  by (auto simp: update_ticket_def apply_update_def split_beta Let_def
      split: if_splits option.splits sum.splits bool.splits prod.splits)


section \<open>The update workflow: the messages\<close>

lemma notify_ccs_sent:
  "snd (notify_ccs tpl ccs sent) = sent @ map recipients (fst (notify_ccs tpl ccs sent))"
  by (induction ccs arbitrary: sent) (simp_all add: split_beta Let_def send_templated_mail_def)

lemma notify_ccs_distinct:
  "distinct sent \<Longrightarrow> distinct (snd (notify_ccs tpl ccs sent))"
  by (induction ccs arbitrary: sent) (simp_all add: split_beta Let_def)

lemma notify_public_sent:
  "snd (notify_public pub f t ccs) = map recipients (fst (notify_public pub f t ccs))"
  by (simp add: notify_public_def split_beta Let_def send_templated_mail_def
      notify_ccs_sent[of _ _ "[submitter_email t]"] notify_ccs_sent[of _ _ "[]"])

lemma notify_public_distinct: "distinct (snd (notify_public pub f t ccs))"
  by (simp add: notify_public_def split_beta Let_def notify_ccs_distinct)

lemma notify_owner_sent:
  "snd (notify_owner acting re f t sent) = sent @ map recipients (fst (notify_owner acting re f t sent))"
  by (simp add: notify_owner_def Let_def send_templated_mail_def split: option.splits)

lemma notify_owner_distinct:
  "distinct sent \<Longrightarrow> distinct (snd (notify_owner acting re f t sent))"
  by (simp add: notify_owner_def Let_def split: option.splits)

lemma notify_queue_recipients:
  "map recipients (notify_queue re f t sent) =
     (if truthy (updated_ticket_cc (queue t)) \<and> updated_ticket_cc (queue t) \<notin> set sent
      then [updated_ticket_cc (queue t)] else [])"
  by (simp add: notify_queue_def send_templated_mail_def)

lemma notify_queue_fresh:
  "distinct sent \<Longrightarrow> distinct (sent @ map recipients (notify_queue re f t sent))"
  unfolding notify_queue_recipients by auto

lemma fan_out_distinct: "distinct (map recipients (fan_out pub acting re f t ccs))"
proof -
  let ?p = "notify_public pub f t ccs"
  let ?o = "notify_owner acting re f t (snd ?p)"
  have d2: "distinct (snd ?o)"
    by (rule notify_owner_distinct[OF notify_public_distinct])
  have s2: "snd ?o = map recipients (fst ?p) @ map recipients (fst ?o)"
    by (simp add: notify_owner_sent[of acting re f t "snd ?p"] notify_public_sent[symmetric])
  have s3: "snd ?o @ xs = map recipients (fst ?p) @ map recipients (fst ?o) @ xs" for xs
    using s2 by simp
  have "map recipients (fan_out pub acting re f t ccs)
      = snd ?o @ map recipients (notify_queue re f t (snd ?o))"
    unfolding s3 by (simp add: fan_out_def split_beta Let_def)
  then show ?thesis
    using notify_queue_fresh[OF d2] by simp
qed


lemma update_ticket_fst_Updated:
  assumes "fst (update_ticket ev rq i pub d) = Updated tr resp"
  shows "\<exists>t q comment f0 t1 ttl re.
      find (\<lambda>r. tid r = Some i) (tickets d) = Some t
    \<and> read_post (req_post rq) t = Inr q
    \<and> render ev t (neutralise_comment (in_comment q)) = Inr comment
    \<and> new_followup ev (req_user rq) (in_public q) comment t = Inr f0
    \<and> assign_owner (effective_owner (in_owner q) t) t d = Inr (t1, ttl, re)
    \<and> finish_update ev rq q comment re (status t1) (get_status_display (status t1)) (assigned_to t)
         (fst (begin_update ev q (f0\<lparr>f_title := ttl\<rparr>) t1 d))
         (fst (snd (begin_update ev q (f0\<lparr>f_title := ttl\<rparr>) t1 d)))
         (snd (snd (begin_update ev q (f0\<lparr>f_title := ttl\<rparr>) t1 d)))
       = (Updated tr resp, snd (update_ticket ev rq i pub d))"
  by (rule update_ticket_Updated) (use assms in \<open>simp add: prod_eq_iff\<close>)

lemma update_ticket_unchanged:
  "(\<forall>tr resp. fst (update_ticket ev rq i pub d) \<noteq> Updated tr resp) \<Longrightarrow>
   snd (update_ticket ev rq i pub d) = d"
  by (auto simp: update_ticket_def apply_update_def split_beta Let_def finish_update_def
      split: if_splits option.splits sum.splits bool.splits prod.splits)

text \<open>
  The tests of lines 817, 831 and 861 compare whole values of \<open>recipients\<close>: the messages
  that an update adds to the outbox have pairwise distinct values.
\<close>

lemma update_ticket_mails:
  assumes "fst (update_ticket ev rq i pub d) = Updated tr resp"
  shows "distinct (map recipients (tr_mails tr))
       \<and> outbox (snd (update_ticket ev rq i pub d)) = outbox d @ tr_mails tr"
  using update_ticket_fst_Updated[OF assms]
proof (elim exE conjE)
  fix t q comment f0 t1 ttl re
  assume fin: "finish_update ev rq q comment re (status t1) (get_status_display (status t1)) (assigned_to t)
         (fst (begin_update ev q (f0\<lparr>f_title := ttl\<rparr>) t1 d))
         (fst (snd (begin_update ev q (f0\<lparr>f_title := ttl\<rparr>) t1 d)))
         (snd (snd (begin_update ev q (f0\<lparr>f_title := ttl\<rparr>) t1 d)))
       = (Updated tr resp, snd (update_ticket ev rq i pub d))"
  have "outbox (snd (snd (begin_update ev q (f0\<lparr>f_title := ttl\<rparr>) t1 d))) = outbox d"
    using begin_update_ticket(4)[of ev q "f0\<lparr>f_title := ttl\<rparr>" t1 d] by (simp add: same_tables_def)
  with finish_update_trace[OF fin] show ?thesis
    by (auto simp: fan_out_distinct)
qed

text \<open>Carol submitted the ticket and follows it; Alice follows it and is its assignee.
  Each gets one message.\<close>

lemma followers_served_once:
  "outbox (snd (update_ticket plain_env public_comment 1 False followed_db)) =
     [\<lparr>template = ''updated_submitter'', recipients = Some ''carol@example.org''\<rparr>,
      \<lparr>template = ''updated_cc'', recipients = Some ''alice@example.org''\<rparr>]"
  by code_simp

text \<open>
  Claim C4 at a failing input. The address of the queue for updates holds two addresses
  separated by a comma, as its help text asks for (models.py, lines 111--120), and the
  first is the address of the submitter of the printer ticket. Bob adds a public comment.
  The view sends the message \<open>updated_submitter\<close> to the submitter and then the message
  \<open>updated_cc\<close> to the whole value of the queue: that value is not in the list of the
  addresses already served, which holds the submitter's address alone, so the submitter
  is addressed twice in one invocation.
\<close>

theorem queue_address_list_repeats_submitter:
  "submitter_email printer_ticket = Some ''carol@example.org''
   \<and> updated_ticket_cc shared_queue = Some ''carol@example.org,dave@example.org''
   \<and> outbox shared_db = []
   \<and> outbox (snd (update_ticket plain_env public_comment 1 False shared_db)) =
     [\<lparr>template = ''updated_submitter'', recipients = Some ''carol@example.org''\<rparr>,
      \<lparr>template = ''updated_owner'', recipients = Some ''alice@example.org''\<rparr>,
      \<lparr>template = ''updated_cc'', recipients = Some ''carol@example.org,dave@example.org''\<rparr>]"
  by code_simp

text \<open>
  Claim C5 at a failing input. Alice is the assignee of the printer ticket and has
  switched off the messages on ticket changes; Bob adds a private comment and reassigns
  nothing. The view still sends Alice the message \<open>updated_owner\<close>: the test of line 844
  holds as soon as the ticket was not reassigned, and the setting is never read.
\<close>

theorem owner_notified_whatever_the_preference:
  "assigned_to printer_ticket = Some alice
   \<and> email_on_ticket_change alice = Some False
   \<and> outbox (snd (update_ticket plain_env private_comment 1 False office_db)) =
       [\<lparr>template = ''updated_owner'', recipients = Some ''alice@example.org''\<rparr>]"
  by code_simp


section \<open>The update workflow: the omitted owner\<close>

lemma assign_owner_omitted:
  "valid_assignee t d \<Longrightarrow> assign_owner (effective_owner (- 1) t) t d = Inr (t, None, False)"
  by (auto simp: assign_owner_def effective_owner_def valid_assignee_def split: option.splits)


lemma digits_hd: "digits n \<noteq> [] \<and> (\<exists>k<10. hd (digits n) = char_of (48 + (k::nat)))"
proof (induction n rule: digits.induct)
  case (1 n)
  show ?case
  proof (cases "n < 10")
    case True
    then show ?thesis by (subst (1 2) digits.simps) auto
  next
    case False
    with 1 show ?thesis by (subst (1 2) digits.simps) auto
  qed
qed

lemma digit_not_letter:
  fixes k :: nat
  assumes "k < 10"
  shows "char_of (48 + k) \<noteq> CHR ''A'' \<and> char_of (48 + k) \<noteq> CHR ''U''"
proof -
  have v: "(of_char (char_of (48 + k) :: char) :: nat) = 48 + k"
    using assms by simp
  have "char_of (48 + k) \<noteq> CHR ''A''"
  proof
    assume "char_of (48 + k) = CHR ''A''"
    then have "(of_char (char_of (48 + k) :: char) :: nat) = of_char (CHR ''A'')"
      by (simp only:)
    with v have "48 + k = (65::nat)" by simp
    with assms show False by simp
  qed
  moreover have "char_of (48 + k) \<noteq> CHR ''U''"
  proof
    assume "char_of (48 + k) = CHR ''U''"
    then have "(of_char (char_of (48 + k) :: char) :: nat) = of_char (CHR ''U'')"
      by (simp only:)
    with v have "48 + k = (85::nat)" by simp
    with assms show False by simp
  qed
  ultimately show ?thesis by simp
qed

lemma str_int_not_assignment: "\<not> assignment_title (str_int n)"
proof -
  have d: "\<not> assignment_title (digits m)" for m
  proof -
    from digits_hd[of m] obtain k :: nat where k: "k < 10" "hd (digits m) = char_of (48 + k)"
      and ne: "digits m \<noteq> []" by blast
    from ne obtain c cs where cs: "digits m = c # cs" by (cases "digits m") auto
    with k digit_not_letter[OF k(1)] show ?thesis
      by (auto simp: assignment_title_def)
  qed
  show ?thesis
    using d by (auto simp: str_int_def assignment_title_def)
qed

lemma get_status_display_not_assignment: "\<not> assignment_title (get_status_display s)"
  using str_int_not_assignment[of s]
  by (auto simp: get_status_display_def assignment_title_def)


lemma write_row_own_rows:
  "tid t \<noteq> None \<Longrightarrow> r \<in> set (tickets (snd (write_row t d))) \<Longrightarrow> tid r = tid t \<Longrightarrow> r = t"
  by (auto simp: write_row_def split: option.splits if_splits)

lemma propagate_merge_row:
  "r \<in> set (tickets (propagate_merge t d)) \<Longrightarrow>
   \<exists>r0 \<in> set (tickets d). tid r0 = tid r \<and> (assigned_to r = assigned_to r0 \<or> assigned_to r = assigned_to t)"
  by (auto simp: propagate_merge_def override_row_def split: if_splits)

lemma ticket_save_own_rows:
  assumes "r \<in> set (tickets (snd (ticket_save nw t d)))" and "tid r = tid t" and "tid t \<noteq> None"
  shows "assigned_to r = assigned_to t"
proof -
  let ?t3 = "fst (sync_customer (stamp_dates nw t) d)"
  let ?d3 = "snd (sync_customer (stamp_dates nw t) d)"
  have tid3: "tid ?t3 = tid t" and a3: "assigned_to ?t3 = assigned_to t"
    by (simp_all add: sync_customer_fields stamp_dates_fields)
  have w: "fst (write_row ?t3 ?d3) = ?t3"
    using assms(3) tid3 by (cases "tid ?t3") (auto simp: write_row_def)
  have save: "snd (ticket_save nw t d) = propagate_merge ?t3 (snd (write_row ?t3 ?d3))"
    using assms(3) by (simp add: ticket_save_def register_submitter_existing split_beta Let_def w)
  from assms(1) obtain r0 where r0: "r0 \<in> set (tickets (snd (write_row ?t3 ?d3)))" "tid r0 = tid r"
      "assigned_to r = assigned_to r0 \<or> assigned_to r = assigned_to ?t3"
    unfolding save using propagate_merge_row by blast
  have "r0 = ?t3"
    using write_row_own_rows[of ?t3 r0 ?d3] r0 assms(2,3) tid3 by simp
  with r0(3) a3 show ?thesis by auto
qed

lemma finish_update_rows:
  assumes "finish_update ev rq q comment re os oss oo f t3 d3 = (out, d')"
    and "r \<in> set (tickets d')" and "tid r = tid t3" and "tid t3 \<noteq> None"
  shows "assigned_to r = assigned_to t3"
proof -
  let ?t5 = "set_resolution (in_new_status q) comment (snd (log_changes ev q f os oss oo d3 t3))"
  have t5: "tid ?t5 = tid t3" "assigned_to ?t5 = assigned_to t3"
    by (simp_all add: set_resolution_keeps log_changes_keeps)
  from assms(1) obtain d5 where "tickets d' = tickets (snd (ticket_save (now ev) ?t5 d5))"
    by (auto simp: finish_update_def split_beta Let_def subscribe_acting_user_tables)
  with assms(2) have "r \<in> set (tickets (snd (ticket_save (now ev) ?t5 d5)))" by simp
  from ticket_save_own_rows[OF this] assms(3,4) t5 show ?thesis by simp
qed


lemma find_tid: "find (\<lambda>r. tid r = Some i) rows = Some t \<Longrightarrow> tid t = Some i"
  by (auto simp: find_Some_iff)

lemma owner_row_absent:
  "same_user (assigned_to t) oo \<Longrightarrow> ''Owner'' \<notin> tc_field ` set (fst (log_changes ev q f os oss oo d t))"
  by (auto simp: log_changes_rows change_row_def)

lemma omitted_owner_updated:
  assumes upd: "fst (update_ticket ev rq i pub d) = Updated tr resp"
    and found: "find (\<lambda>r. tid r = Some i) (tickets d) = Some t"
    and post: "read_post (req_post rq) t = Inr q"
    and omitted: "in_owner q = - 1"
    and valid: "valid_assignee t d"
  shows "assigned_to (tr_ticket tr) = assigned_to t \<and> \<not> tr_reassigned tr
       \<and> ''Owner'' \<notin> tc_field ` set (tr_changes tr)
       \<and> (\<exists>s. f_title (tr_followup tr) = Some s \<and> \<not> assignment_title s)
       \<and> (\<forall>r \<in> set (tickets (snd (update_ticket ev rq i pub d))).
             tid r = Some i \<longrightarrow> assigned_to r = assigned_to t)"
  using update_ticket_fst_Updated[OF upd]
proof (elim exE conjE)
  fix t' q' comment f0 t1 ttl re
  assume a: "find (\<lambda>r. tid r = Some i) (tickets d) = Some t'"
    "read_post (req_post rq) t' = Inr q'"
    "new_followup ev (req_user rq) (in_public q') comment t' = Inr f0"
    "assign_owner (effective_owner (in_owner q') t') t' d = Inr (t1, ttl, re)"
  assume fin: "finish_update ev rq q' comment re (status t1) (get_status_display (status t1)) (assigned_to t')
         (fst (begin_update ev q' (f0\<lparr>f_title := ttl\<rparr>) t1 d))
         (fst (snd (begin_update ev q' (f0\<lparr>f_title := ttl\<rparr>) t1 d)))
         (snd (snd (begin_update ev q' (f0\<lparr>f_title := ttl\<rparr>) t1 d)))
       = (Updated tr resp, snd (update_ticket ev rq i pub d))"
  from a(1,2) found post have tq: "t' = t" "q' = q" by simp_all
  from a(4) have asg: "t1 = t" "ttl = None" "re = False"
    using assign_owner_omitted[OF valid] omitted by (simp_all add: tq)
  let ?B = "begin_update ev q (f0\<lparr>f_title := None\<rparr>) t d"
  have tidt: "tid t = Some i" by (rule find_tid[OF found])
  have k: "assigned_to (fst (snd ?B)) = assigned_to t"
    using begin_update_ticket(1)[of ev q "f0\<lparr>f_title := None\<rparr>" t d] by (simp add: kept_def)
  have tid3: "tid (fst (snd ?B)) = Some i"
    using begin_update_tid[of t ev q "f0\<lparr>f_title := None\<rparr>" d] tidt by simp
  note tr = finish_update_trace[OF fin, unfolded tq asg]
  have title: "f_title (fst ?B) =
     Some (if in_new_status q \<noteq> status t then get_status_display (in_new_status q)
           else if f_comment (f0\<lparr>f_title := None\<rparr>) \<noteq> [] then ''Comment'' else ''Updated'')"
    by (rule begin_update_followup(6)) simp
  have c1: "assigned_to (tr_ticket tr) = assigned_to t" using tr k by auto
  have c2: "\<not> tr_reassigned tr" using tr by auto
  have c3: "''Owner'' \<notin> tc_field ` set (tr_changes tr)"
  proof -
    have "same_user (assigned_to (fst (snd ?B))) (assigned_to t)"
      by (simp add: k same_user_def)
    from owner_row_absent[OF this] tr show ?thesis by auto
  qed
  have c4: "\<exists>s. f_title (tr_followup tr) = Some s \<and> \<not> assignment_title s"
  proof -
    have "f_title (tr_followup tr) = f_title (fst ?B)" using tr by auto
    moreover have "\<not> assignment_title ''Comment''" "\<not> assignment_title ''Updated''"
      by (simp_all add: assignment_title_def)
    ultimately show ?thesis
      using title get_status_display_not_assignment by auto
  qed
  have c5: "\<forall>r \<in> set (tickets (snd (update_ticket ev rq i pub d))).
             tid r = Some i \<longrightarrow> assigned_to r = assigned_to t"
    using finish_update_rows[OF fin[unfolded tq asg]] tid3 k by auto
  from c1 c2 c3 c4 c5 show ?thesis by blast
qed

text \<open>
  Claim C10. When the owner field of the request carries \<open>-1\<close> (the field is omitted),
  whether the ticket has an assignee or not, a completed update leaves the assignee as
  it was, in memory and in the rows of the ticket; \<open>reassigned\<close> stays false; no row of
  the change log has the field Owner; and the title of the follow-up is not an assignment
  title. An invocation that does not complete leaves the database as it was.
\<close>

theorem omitted_owner_keeps_assignee:
  assumes "find (\<lambda>r. tid r = Some i) (tickets d) = Some t"
    and "read_post (req_post rq) t = Inr q"
    and "in_owner q = - 1"
    and "valid_assignee t d"
  shows "case fst (update_ticket ev rq i pub d) of
           Updated tr resp \<Rightarrow>
             assigned_to (tr_ticket tr) = assigned_to t \<and> \<not> tr_reassigned tr
             \<and> ''Owner'' \<notin> tc_field ` set (tr_changes tr)
             \<and> (\<exists>s. f_title (tr_followup tr) = Some s \<and> \<not> assignment_title s)
             \<and> (\<forall>r \<in> set (tickets (snd (update_ticket ev rq i pub d))).
                   tid r = Some i \<longrightarrow> assigned_to r = assigned_to t)
         | _ \<Rightarrow> snd (update_ticket ev rq i pub d) = d"
proof (cases "fst (update_ticket ev rq i pub d)")
  case (Updated tr resp)
  from omitted_owner_updated[OF Updated assms] show ?thesis
    unfolding Updated by simp
qed (simp_all add: update_ticket_unchanged)

text \<open>Bob comments on the printer ticket and posts no owner: Alice stays its assignee.\<close>

theorem omitted_owner_keeps_assignee_witness:
  "find (\<lambda>r. tid r = Some 1) (tickets office_db) = Some printer_ticket
   \<and> p_owner (req_post private_comment) = Absent
   \<and> valid_assignee printer_ticket office_db
   \<and> (case fst (update_ticket plain_env private_comment 1 False office_db) of
         Updated tr resp \<Rightarrow>
           assigned_to (tr_ticket tr) = Some alice \<and> \<not> tr_reassigned tr
           \<and> tr_changes tr = [] \<and> f_title (tr_followup tr) = Some ''Comment''
       | _ \<Rightarrow> False)"
proof -
  let ?q = "\<lparr>in_comment = ''Any news?'', in_new_status = 1, in_title = ''Printer'', in_public = False,
     in_owner = - 1, in_priority = 3, in_due_date = None, in_customer_contact = None,
     in_customer = None, in_site = None, in_customer_product = None\<rparr>"
  have a: "find (\<lambda>r. tid r = Some 1) (tickets office_db) = Some printer_ticket" by code_simp
  have b: "read_post (req_post private_comment) printer_ticket = Inr ?q" by code_simp
  have c: "in_owner ?q = - 1" by simp
  have d: "valid_assignee printer_ticket office_db" by code_simp
  have e: "p_owner (req_post private_comment) = Absent" by code_simp
  have f: "assigned_to printer_ticket = Some alice" by code_simp
  have g: "case fst (update_ticket plain_env private_comment 1 False office_db) of
         Updated tr resp \<Rightarrow> tr_changes tr = [] \<and> f_title (tr_followup tr) = Some ''Comment''
       | _ \<Rightarrow> False" by code_simp
  from omitted_owner_keeps_assignee[OF a b c d, of plain_env False] g
  have "case fst (update_ticket plain_env private_comment 1 False office_db) of
         Updated tr resp \<Rightarrow>
           assigned_to (tr_ticket tr) = Some alice \<and> \<not> tr_reassigned tr
           \<and> tr_changes tr = [] \<and> f_title (tr_followup tr) = Some ''Comment''
       | _ \<Rightarrow> False"
    by (auto simp: f split: outcome.splits)
  with a e d show ?thesis by blast
qed


section \<open>The update workflow: the rows of the change log\<close>














section \<open>The quick update\<close>



























text \<open>A negative billing passes the tests of the view and is refused by the database:
  the save raises, and the rows keep the billing they had.\<close>

lemma negative_billing_refused:
  "fst (quick_update_ticket 60 [] 32767 (ajax_post ''billing'' (- 1)) 1 office_db) = Crashed DatabaseError
   \<and> map billing (tickets (snd (quick_update_ticket 60 [] 32767 (ajax_post ''billing'' (- 1)) 1 office_db)))
      = map billing (tickets office_db)"
  by code_simp


section \<open>The update workflow: the comment\<close>

text \<open>
  Claim C6 at two failing inputs. The comment \<open>{%\<close> holds an opener and no closer: what
  the view hands to the template engine opens a \<open>verbatim\<close> block and never closes it.
  The comment \<open>50%} off\<close> holds a closer and no opener: what the view hands over closes
  a block that was never opened. The engine refuses both templates, so the view raises
  and renders no comment.
\<close>

theorem lone_delimiter_unbalanced:
  "neutralise_comment ''{%'' = ''{% verbatim %}{%''
   \<and> neutralise_comment ''50%} off'' = ''50%}{% endverbatim %} off''"
  by code_simp


section \<open>The saved queries: writing and reading\<close>

subsection \<open>Base 64\<close>






































subsection \<open>The example library\<close>




subsection \<open>The round trip and the fallback\<close>



text \<open>
  The brace matters. The text of \<open>null\<close> begins with the letter n, whose first symbol in
  base 64 is b: line 1081 strips it with the marker, and what is left is no base 64. The
  view writes dictionaries only.
\<close>

lemma first_symbol_stripped:
  "reads_back plain_codec JNull
   \<and> urlsafe_query plain_codec JNull = ''bnVsbA==''
   \<and> lstrip quoting ''bnVsbA=='' = ''nVsbA==''
   \<and> query_params_for plain_codec (Saved (urlsafe_query plain_codec JNull)) = Redirect_list"
  by code_simp

end
